theory Spec2Isabelle
  imports
    Main
    "HOL-Library.Word"
    "HOL-Library.Signed_Division"
    "HOL-Library.Char_ord"
    "HOL-Library.List_Lexorder"
begin

unbundle bit_operations_syntax

section \<open>Go values and the standard-library functions the client calls\<close>

text \<open>
  A Go \<^verbatim>\<open>string\<close> is a sequence of bytes: it is modelled as a \<^typ>\<open>string\<close>, a list of
  8-bit characters, and \<^verbatim>\<open>len\<close> is \<^const>\<open>length\<close>. A Go \<^verbatim>\<open>int\<close> is a 64-bit
  signed integer: it is modelled as an \<^typ>\<open>int\<close>, and the one multiplication of the code
  that can leave the range of \<open>int64\<close> wraps explicitly (\<open>wrap64\<close>). A \<^verbatim>\<open>float64\<close> is its
  IEEE 754 bit pattern. A pointer that may be \<^verbatim>\<open>nil\<close> is an \<^typ>\<open>'a option\<close>. An
  \<^verbatim>\<open>error\<close> is a value of the datatype \<open>error\<close>, one constructor for each message the
  code can produce, and a function that returns \<^verbatim>\<open>(T, error)\<close> returns \<open>error + T\<close>.

  The functions of the Go standard library are modelled from their documentation. The
  functions of package \<^verbatim>\<open>strings\<close> that classify Unicode code points (\<^verbatim>\<open>TrimSpace\<close>,
  \<^verbatim>\<open>Fields\<close>, \<^verbatim>\<open>ToUpper\<close>) are modelled on bytes: the white space is the ASCII white
  space, the letters with an upper case are \<open>a\<close> to \<open>z\<close>, and a byte above \<open>0x7F\<close> is
  neither.
\<close>

datatype error =
    ErrInvalidTimeFormat           \<comment> \<open>invalid time format, expected HH:MM\<close>
  | ErrInvalidHour string          \<comment> \<open>invalid hour: %s\<close>
  | ErrInvalidMinute string        \<comment> \<open>invalid minute: %s\<close>
  | ErrHourRange                   \<comment> \<open>hour must be between 0 and 23\<close>
  | ErrMinuteRange                 \<comment> \<open>minute must be between 0 and 59\<close>
  | ErrInvalidFlightLevel string   \<comment> \<open>invalid flight level format: %s\<close>
  | ErrInvalidAltitude string      \<comment> \<open>invalid altitude format: %s\<close>
  | ErrMissingOrigin               \<comment> \<open>types.ErrMissingOrigin\<close>
  | ErrMissingDestination          \<comment> \<open>types.ErrMissingDestination\<close>
  | ErrMissingAircraft             \<comment> \<open>types.ErrMissingAircraft\<close>
  | ErrOriginRequired              \<comment> \<open>origin airport (orig) is required\<close>
  | ErrDestinationRequired         \<comment> \<open>destination airport (dest) is required\<close>
  | ErrAircraftRequired            \<comment> \<open>aircraft type (type) is required\<close>
  | ErrOriginLength                \<comment> \<open>origin airport code must be 4 characters (ICAO format)\<close>
  | ErrDestinationLength           \<comment> \<open>destination airport code must be 4 characters (ICAO format)\<close>
  | ErrDepartureHourRange          \<comment> \<open>departure hour must be between 0 and 23\<close>
  | ErrDepartureMinuteRange        \<comment> \<open>departure minute must be between 0 and 59\<close>
  | ErrStaticID                    \<comment> \<open>static_id must be either string or object\<close>
  | ErrJSONSyntax                  \<comment> \<open>json.SyntaxError\<close>
  | ErrJSONUnmarshalType           \<comment> \<open>json.UnmarshalTypeError\<close>
  | ErrJSONUnsupportedValue        \<comment> \<open>json.UnsupportedValueError\<close>

definition minInt64 :: int where
  "minInt64 = - (2 ^ 63)"

definition maxInt64 :: int where
  "maxInt64 = 2 ^ 63 - 1"

definition wrap64 :: "int \<Rightarrow> int" where
  "wrap64 x = (x + 2 ^ 63) mod 2 ^ 64 - 2 ^ 63"

subsection \<open>strconv.Atoi and strconv.Itoa\<close>

definition isDigit :: "char \<Rightarrow> bool" where
  "isDigit c = (48 \<le> (of_char c :: nat) \<and> (of_char c :: nat) \<le> 57)"

definition digitVal :: "char \<Rightarrow> nat" where
  "digitVal c = of_char c - 48"

text \<open>The digit loop of \<^verbatim>\<open>strconv.ParseUint\<close> in base 10: a byte that is not a decimal
  digit is a syntax error.\<close>

fun parseDigits :: "nat \<Rightarrow> string \<Rightarrow> nat option" where
  "parseDigits n [] = Some n"
| "parseDigits n (c # cs) =
     (if isDigit c then parseDigits (n * 10 + digitVal c) cs else None)"

text \<open>
  \<^verbatim>\<open>strconv.Atoi\<close>: an optional sign, then one decimal digit or more, and a value that
  fits \<open>int64\<close>. The \<^verbatim>\<open>*NumError\<close> it returns otherwise is dropped by every caller in
  this repository, so failure is \<open>None\<close>.
\<close>

definition Atoi :: "string \<Rightarrow> int option" where
  "Atoi s =
     (case s of
        [] \<Rightarrow> None
      | c # cs \<Rightarrow>
          (let neg = (c = CHR ''-'');
               ds = (if c = CHR ''-'' \<or> c = CHR ''+'' then cs else s)
           in if ds = [] then None
              else (case parseDigits 0 ds of
                      None \<Rightarrow> None
                    | Some n \<Rightarrow>
                        (let v = (if neg then - int n else int n)
                         in if minInt64 \<le> v \<and> v \<le> maxInt64 then Some v else None))))"

definition digitChar :: "nat \<Rightarrow> char" where
  "digitChar d = char_of (48 + d)"

fun natDigits :: "nat \<Rightarrow> string" where
  "natDigits n = (if n < 10 then [digitChar n] else natDigits (n div 10) @ [digitChar (n mod 10)])"

declare natDigits.simps [simp del]

text \<open>\<^verbatim>\<open>strconv.Itoa\<close>: the decimal digits, after a minus sign for a negative number.\<close>

definition Itoa :: "int \<Rightarrow> string" where
  "Itoa i = (if i < 0 then CHR ''-'' # natDigits (nat (- i)) else natDigits (nat i))"

subsection \<open>fmt.Sprintf with the verb %0wd\<close>

text \<open>
  \<^verbatim>\<open>fmt.Sprintf("%0wd", i)\<close>: the decimal digits padded with zeros on the left to the
  width \<open>w\<close>; the sign of a negative number counts for the width and stands before the
  zeros.
\<close>

definition Sprintf_0d :: "nat \<Rightarrow> int \<Rightarrow> string" where
  "Sprintf_0d w i =
     (let ds = natDigits (nat \<bar>i\<bar>) in
      if i < 0 then CHR ''-'' # replicate (w - 1 - length ds) (CHR ''0'') @ ds
      else replicate (w - length ds) (CHR ''0'') @ ds)"

subsection \<open>Package strings\<close>

text \<open>\<^verbatim>\<open>strings.Split(s, sep)\<close> with a one-byte separator: the parts between the
  separators, one more than there are separators.\<close>

fun Split_from :: "char \<Rightarrow> string \<Rightarrow> string \<Rightarrow> string list" where
  "Split_from sep cur [] = [cur]"
| "Split_from sep cur (c # cs) =
     (if c = sep then cur # Split_from sep [] cs else Split_from sep (cur @ [c]) cs)"

definition Split :: "string \<Rightarrow> char \<Rightarrow> string list" where
  "Split s sep = Split_from sep [] s"

text \<open>The table \<^verbatim>\<open>asciiSpace\<close> of package \<^verbatim>\<open>strings\<close>: tab, line feed, vertical tab,
  form feed, carriage return and space.\<close>

definition isSpace :: "char \<Rightarrow> bool" where
  "isSpace c = ((9 \<le> (of_char c :: nat) \<and> (of_char c :: nat) \<le> 13) \<or> (of_char c :: nat) = 32)"

definition TrimSpace :: "string \<Rightarrow> string" where
  "TrimSpace s = rev (dropWhile isSpace (rev (dropWhile isSpace s)))"



definition toUpperChar :: "char \<Rightarrow> char" where
  "toUpperChar c =
     (if 97 \<le> (of_char c :: nat) \<and> (of_char c :: nat) \<le> 122 then char_of ((of_char c :: nat) - 32)
      else c)"

definition ToUpper :: "string \<Rightarrow> string" where
  "ToUpper s = map toUpperChar s"

definition HasPrefix :: "string \<Rightarrow> string \<Rightarrow> bool" where
  "HasPrefix s p = (take (length p) s = p)"

definition TrimPrefix :: "string \<Rightarrow> string \<Rightarrow> string" where
  "TrimPrefix s p = (if HasPrefix s p then drop (length p) s else s)"

text \<open>\<^verbatim>\<open>strings.Join\<close>.\<close>

fun Join :: "string list \<Rightarrow> string \<Rightarrow> string" where
  "Join [] sep = []"
| "Join [x] sep = x"
| "Join (x # y # ys) sep = x @ sep @ Join (y # ys) sep"

subsection \<open>float64\<close>

type_synonym float64 = "64 word"

text \<open>The comparison \<^verbatim>\<open>f == 0\<close> holds for the two zeros, \<open>+0\<close> and \<open>-0\<close>, and for no
  other value: a NaN is different from zero.\<close>

definition float64_is_zero :: "float64 \<Rightarrow> bool" where
  "float64_is_zero f = (f = 0 \<or> f = 0x8000000000000000)"

text \<open>\<^verbatim>\<open>math.IsNaN(f) || math.IsInf(f, 0)\<close>: the exponent field, bits 52 to 62, is all
  ones.\<close>

definition float64_is_nan_or_inf :: "float64 \<Rightarrow> bool" where
  "float64_is_nan_or_inf f = (drop_bit 52 f AND 0x7FF = 0x7FF)"

text \<open>
  The decimal renderings of a \<^verbatim>\<open>float64\<close> are not modelled: the functions that compute
  them are parameters of the model, gathered in a record.
\<close>

record stdlib =
  FormatFloat :: "float64 \<Rightarrow> string"   \<comment> \<open>\<^verbatim>\<open>strconv.FormatFloat(f, 'f', -1, 64)\<close>\<close>
  jsonFloat :: "float64 \<Rightarrow> string"     \<comment> \<open>the text \<^verbatim>\<open>encoding/json\<close> writes for a finite float64\<close>
  jsonString :: "string \<Rightarrow> string"     \<comment> \<open>the quoted text \<^verbatim>\<open>encoding/json\<close> writes for a string\<close>

subsection \<open>net/url\<close>

text \<open>
  \<^verbatim>\<open>url.Values\<close> is a \<^verbatim>\<open>map[string][]string\<close>: an association list with one entry
  for each key, in the order in which the keys were first added. Nothing below depends on
  that order: a key is looked up with \<^const>\<open>map_of\<close>, and \<open>Encode\<close> sorts the keys.
\<close>

type_synonym Values = "(string \<times> string list) list"

text \<open>\<^verbatim>\<open>func (v Values) Add(key, value string)\<close>: \<^verbatim>\<open>v[key] = append(v[key], value)\<close>.\<close>

definition Add :: "string \<Rightarrow> string \<Rightarrow> Values \<Rightarrow> Values" where
  "Add key val v =
     (if key \<in> fst ` set v
      then map (\<lambda>(k, vs). (k, if k = key then vs @ [val] else vs)) v
      else v @ [(key, [val])])"

definition isUnreserved :: "char \<Rightarrow> bool" where
  "isUnreserved c =
     (let x = (of_char c :: nat) in
      (97 \<le> x \<and> x \<le> 122) \<or> (65 \<le> x \<and> x \<le> 90) \<or> (48 \<le> x \<and> x \<le> 57) \<or>
      c = CHR ''-'' \<or> c = CHR ''_'' \<or> c = CHR ''.'' \<or> c = CHR ''~'')"

definition upperhex :: "nat \<Rightarrow> char" where
  "upperhex n = ''0123456789ABCDEF'' ! (n mod 16)"

text \<open>\<^verbatim>\<open>url.QueryEscape\<close>: a letter, a digit and \<open>- _ . ~\<close> stand for themselves, a space
  becomes \<open>+\<close>, every other byte becomes \<open>%XX\<close>.\<close>

definition escapeByte :: "char \<Rightarrow> string" where
  "escapeByte c =
     (if isUnreserved c then [c]
      else if c = CHR '' '' then ''+''
      else [CHR ''%'', upperhex (of_char c div 16), upperhex (of_char c mod 16)])"

definition QueryEscape :: "string \<Rightarrow> string" where
  "QueryEscape s = concat (map escapeByte s)"

text \<open>\<^verbatim>\<open>func (v Values) Encode() string\<close>: \<open>key=value\<close> for every value of every key, the
  keys sorted, joined by \<open>&\<close>.\<close>

definition Encode :: "Values \<Rightarrow> string" where
  "Encode v =
     Join (concat (map (\<lambda>(k, vs). map (\<lambda>x. QueryEscape k @ ''='' @ QueryEscape x) vs)
                       (sort_key fst v))) ''&''"

text \<open>The components \<open>key=value\<close> that \<open>Encode\<close> joins.\<close>

definition query_components :: "Values \<Rightarrow> string list" where
  "query_components v =
     concat (map (\<lambda>(k, vs). map (\<lambda>x. QueryEscape k @ ''='' @ QueryEscape x) vs) (sort_key fst v))"

text \<open>The names of the parameters of a query string: it is cut at every \<open>&\<close>, and the
  name of a part is what stands before its first \<open>=\<close>.\<close>

definition query_keys :: "string \<Rightarrow> string list" where
  "query_keys q =
     (if q = [] then []
      else map (takeWhile (\<lambda>c. c \<noteq> CHR ''='')) (Split q (CHR ''&'')))"

section \<open>Package types: the request model\<close>

text \<open>\<^verbatim>\<open>type AircraftData struct\<close>, in the order of its declaration.\<close>

record AircraftData =
  Category :: string
  Equipment :: string
  Transponder :: string
  PBN :: string
  ExtraRemark :: string
  MaxPax :: string
  OEW :: float64
  MZFW :: float64
  MTOW :: float64
  MLW :: float64
  MaxFuel :: float64
  HexCode :: string
  Per :: string
  PaxWgt :: int
  ICAO :: string
  Name :: string
  Engines :: string

text \<open>\<^verbatim>\<open>type FlightPlanRequest struct\<close>, in the order of its declaration. \<^verbatim>\<open>Units\<close> is
  a named string type.\<close>

record FlightPlanRequest =
  Origin :: string
  Destination :: string
  Aircraft :: string
  Airline :: string
  FlightNumber :: string
  Date :: string
  DepartureHour :: int
  DepartureMinute :: int
  Route :: string
  ScheduledHour :: int
  ScheduledMinute :: int
  Registration :: string
  FinNumber :: string
  SELCAL :: string
  ATCCallsign :: string
  Passengers :: int
  CaptainName :: string
  DispatcherName :: string
  PilotID :: string
  Alternate :: string
  Altitude :: string
  AltnCount :: int
  AltnAvoid :: string
  Altn1ID :: string
  Altn1Runway :: string
  Altn1Route :: string
  Altn2ID :: string
  Altn2Runway :: string
  Altn2Route :: string
  Altn3ID :: string
  Altn3Runway :: string
  Altn3Route :: string
  Altn4ID :: string
  Altn4Runway :: string
  Altn4Route :: string
  FuelFactor :: string
  ManualZFW :: float64
  AddedFuel :: string
  AddedFuelUnits :: string
  ContFuelPct :: string
  ReserveFuel :: int
  Cargo :: float64
  TaxiOut :: int
  TaxiIn :: int
  OriginRunway :: string
  DestRunway :: string
  ClimbProfile :: string
  DescentProfile :: string
  CruiseProfile :: string
  CostIndex :: string
  AircraftData :: "AircraftData option"
  ETOPSRule :: string
  ManualRemarks :: string
  StaticID :: string
  PlanFormat :: string
  Units :: string
  NavLog :: "bool option"
  ETOPS :: "bool option"
  StepClimbs :: "bool option"
  RunwayAnalysis :: "bool option"
  NOTAMs :: "bool option"
  FIRNOTAMs :: "bool option"
  Maps :: string
  OmitSIDs :: "bool option"
  OmitSTARs :: "bool option"
  FindSIDSTAR :: string

text \<open>\<^verbatim>\<open>type FetchRequest struct\<close>; its field \<^verbatim>\<open>StaticID\<close> is \<open>FetchStaticID\<close> here, apart
  from the field of the same name of \<open>FlightPlanRequest\<close>.\<close>

record FetchRequest =
  UserID :: string
  Username :: string
  FetchStaticID :: string
  JSON :: bool

text \<open>\<^verbatim>\<open>func NewFlightPlanRequest(origin, destination, aircraft string) *FlightPlanRequest\<close>:
  every other field has the zero value of its type.\<close>

definition NewFlightPlanRequest :: "string \<Rightarrow> string \<Rightarrow> string \<Rightarrow> FlightPlanRequest" where
  "NewFlightPlanRequest origin destination aircraft =
   \<lparr>Origin = origin, Destination = destination, Aircraft = aircraft, Airline = [], FlightNumber = [],
     Date = [], DepartureHour = 0, DepartureMinute = 0, Route = [], ScheduledHour = 0,
     ScheduledMinute = 0, Registration = [], FinNumber = [], SELCAL = [], ATCCallsign = [],
     Passengers = 0, CaptainName = [], DispatcherName = [], PilotID = [], Alternate = [],
     Altitude = [], AltnCount = 0, AltnAvoid = [], Altn1ID = [], Altn1Runway = [],
     Altn1Route = [], Altn2ID = [], Altn2Runway = [], Altn2Route = [], Altn3ID = [],
     Altn3Runway = [], Altn3Route = [], Altn4ID = [], Altn4Runway = [], Altn4Route = [],
     FuelFactor = [], ManualZFW = 0, AddedFuel = [], AddedFuelUnits = [], ContFuelPct = [],
     ReserveFuel = 0, Cargo = 0, TaxiOut = 0, TaxiIn = 0, OriginRunway = [], DestRunway = [],
     ClimbProfile = [], DescentProfile = [], CruiseProfile = [], CostIndex = [],
     AircraftData = None, ETOPSRule = [], ManualRemarks = [], StaticID = [], PlanFormat = [],
     Units = [], NavLog = None, ETOPS = None, StepClimbs = None, RunwayAnalysis = None,
     NOTAMs = None, FIRNOTAMs = None, Maps = [], OmitSIDs = None, OmitSTARs = None,
     FindSIDSTAR = []\<rparr>"

subsection \<open>AircraftData.String\<close>

text \<open>
  \<^verbatim>\<open>json.Marshal\<close> of an \<^verbatim>\<open>AircraftData\<close>: every field has the option \<^verbatim>\<open>omitempty\<close>,
  so an empty string and a zero number are left out; a \<^verbatim>\<open>float64\<close> that is kept and is a
  NaN or an infinity makes the call fail with a \<^verbatim>\<open>json.UnsupportedValueError\<close>.
\<close>

definition jsonStringMember :: "stdlib \<Rightarrow> string \<Rightarrow> string \<Rightarrow> string list" where
  "jsonStringMember L name v =
     (if v = [] then [] else [jsonString L name @ '':'' @ jsonString L v])"

definition jsonFloatMember :: "stdlib \<Rightarrow> string \<Rightarrow> float64 \<Rightarrow> string list" where
  "jsonFloatMember L name f =
     (if float64_is_zero f then [] else [jsonString L name @ '':'' @ jsonFloat L f])"

definition jsonIntMember :: "stdlib \<Rightarrow> string \<Rightarrow> int \<Rightarrow> string list" where
  "jsonIntMember L name i =
     (if i = 0 then [] else [jsonString L name @ '':'' @ Itoa i])"

definition json_Marshal_AircraftData :: "stdlib \<Rightarrow> AircraftData \<Rightarrow> error + string" where
  "json_Marshal_AircraftData L ad =
     (if list_ex float64_is_nan_or_inf [OEW ad, MZFW ad, MTOW ad, MLW ad, MaxFuel ad]
      then Inl ErrJSONUnsupportedValue
      else Inr (''{'' @
        Join (jsonStringMember L ''cat'' (Category ad) @
              jsonStringMember L ''equip'' (Equipment ad) @
              jsonStringMember L ''transponder'' (Transponder ad) @
              jsonStringMember L ''pbn'' (PBN ad) @
              jsonStringMember L ''extrarmk'' (ExtraRemark ad) @
              jsonStringMember L ''maxpax'' (MaxPax ad) @
              jsonFloatMember L ''oew'' (OEW ad) @
              jsonFloatMember L ''mzfw'' (MZFW ad) @
              jsonFloatMember L ''mtow'' (MTOW ad) @
              jsonFloatMember L ''mlw'' (MLW ad) @
              jsonFloatMember L ''maxfuel'' (MaxFuel ad) @
              jsonStringMember L ''hexcode'' (HexCode ad) @
              jsonStringMember L ''per'' (Per ad) @
              jsonIntMember L ''paxwgt'' (PaxWgt ad) @
              jsonStringMember L ''icao'' (ICAO ad) @
              jsonStringMember L ''name'' (Name ad) @
              jsonStringMember L ''engines'' (Engines ad)) '','' @
        ''}''))"

text \<open>\<^verbatim>\<open>func (ad *AircraftData) String() string\<close>: the error of \<^verbatim>\<open>json.Marshal\<close> is
  dropped, and the bytes it returns with an error are \<^verbatim>\<open>nil\<close>.\<close>

definition AircraftData_String :: "stdlib \<Rightarrow> AircraftData option \<Rightarrow> string" where
  "AircraftData_String L ad =
     (case ad of
        None \<Rightarrow> []
      | Some a \<Rightarrow> (case json_Marshal_AircraftData L a of Inl err \<Rightarrow> [] | Inr data \<Rightarrow> data))"

subsection \<open>FetchRequest.ToQueryParams\<close>

text \<open>The \<^verbatim>\<open>values\<close> that \<^verbatim>\<open>ToQueryParams\<close> builds before it encodes them.\<close>

definition ToQueryParams_values :: "FetchRequest \<Rightarrow> Values" where
  "ToQueryParams_values fr =
     (let values = [];
          values = (if UserID fr \<noteq> [] then Add ''userid'' (UserID fr) values else values);
          values = (if Username fr \<noteq> [] then Add ''username'' (Username fr) values else values);
          values = (if FetchStaticID fr \<noteq> [] then Add ''static_id'' (FetchStaticID fr) values
                    else values);
          values = (if JSON fr then Add ''json'' ''1'' values else values)
      in values)"

text \<open>\<^verbatim>\<open>func (fr *FetchRequest) ToQueryParams() string\<close>\<close>

definition ToQueryParams :: "FetchRequest \<Rightarrow> string" where
  "ToQueryParams fr =
     (let values = ToQueryParams_values fr in
      if length values = 0 then [] else ''?'' @ Encode values)"

subsection \<open>FlightPlanRequest.ToURLValues\<close>

text \<open>The four closures of \<^verbatim>\<open>ToURLValues\<close>; each takes the \<^verbatim>\<open>values\<close> it captures and
  returns them updated.\<close>

definition addString :: "string \<Rightarrow> string \<Rightarrow> Values \<Rightarrow> Values" where
  "addString key val values = (if val \<noteq> [] then Add key val values else values)"

definition addInt :: "string \<Rightarrow> int \<Rightarrow> Values \<Rightarrow> Values" where
  "addInt key val values = (if val \<noteq> 0 then Add key (Itoa val) values else values)"

definition addFloat :: "stdlib \<Rightarrow> string \<Rightarrow> float64 \<Rightarrow> Values \<Rightarrow> Values" where
  "addFloat L key val values =
     (if \<not> float64_is_zero val then Add key (FormatFloat L val) values else values)"

definition addBool :: "string \<Rightarrow> bool option \<Rightarrow> Values \<Rightarrow> Values" where
  "addBool key val values =
     (case val of
        None \<Rightarrow> values
      | Some b \<Rightarrow> (if b then Add key ''1'' values else Add key ''0'' values))"

text \<open>\<^verbatim>\<open>func (fpr *FlightPlanRequest) ToURLValues() url.Values\<close>\<close>

definition ToURLValues :: "stdlib \<Rightarrow> FlightPlanRequest \<Rightarrow> Values" where
  "ToURLValues L fpr =
     (let values = [];
          values = addString ''orig'' (Origin fpr) values;
          values = addString ''dest'' (Destination fpr) values;
          values = addString ''type'' (Aircraft fpr) values;
          values = addString ''airline'' (Airline fpr) values;
          values = addString ''fltnum'' (FlightNumber fpr) values;
          values = addString ''date'' (Date fpr) values;
          values = addInt ''deph'' (DepartureHour fpr) values;
          values = addInt ''depm'' (DepartureMinute fpr) values;
          values = addString ''route'' (Route fpr) values;
          values = addInt ''steh'' (ScheduledHour fpr) values;
          values = addInt ''stem'' (ScheduledMinute fpr) values;
          values = addString ''reg'' (Registration fpr) values;
          values = addString ''fin'' (FinNumber fpr) values;
          values = addString ''selcal'' (SELCAL fpr) values;
          values = addString ''callsign'' (ATCCallsign fpr) values;
          values = addInt ''pax'' (Passengers fpr) values;
          values = addString ''cpt'' (CaptainName fpr) values;
          values = addString ''dxname'' (DispatcherName fpr) values;
          values = addString ''pid'' (PilotID fpr) values;
          values = addString ''altn'' (Alternate fpr) values;
          values = addString ''fl'' (Altitude fpr) values;
          values = addInt ''altn_count'' (AltnCount fpr) values;
          values = addString ''altn_avoid'' (AltnAvoid fpr) values;
          values = addString ''altn_1_id'' (Altn1ID fpr) values;
          values = addString ''altn_1_rwy'' (Altn1Runway fpr) values;
          values = addString ''altn_1_route'' (Altn1Route fpr) values;
          values = addString ''altn_2_id'' (Altn2ID fpr) values;
          values = addString ''altn_2_rwy'' (Altn2Runway fpr) values;
          values = addString ''altn_2_route'' (Altn2Route fpr) values;
          values = addString ''altn_3_id'' (Altn3ID fpr) values;
          values = addString ''altn_3_rwy'' (Altn3Runway fpr) values;
          values = addString ''altn_3_route'' (Altn3Route fpr) values;
          values = addString ''altn_4_id'' (Altn4ID fpr) values;
          values = addString ''altn_4_rwy'' (Altn4Runway fpr) values;
          values = addString ''altn_4_route'' (Altn4Route fpr) values;
          values = addString ''fuelfactor'' (FuelFactor fpr) values;
          values = addFloat L ''manualzfw'' (ManualZFW fpr) values;
          values = addString ''addedfuel'' (AddedFuel fpr) values;
          values = addString ''addedfuel_units'' (AddedFuelUnits fpr) values;
          values = addString ''contpct'' (ContFuelPct fpr) values;
          values = addInt ''resvrule'' (ReserveFuel fpr) values;
          values = addFloat L ''cargo'' (Cargo fpr) values;
          values = addInt ''taxiout'' (TaxiOut fpr) values;
          values = addInt ''taxiin'' (TaxiIn fpr) values;
          values = addString ''origrwy'' (OriginRunway fpr) values;
          values = addString ''destrwy'' (DestRunway fpr) values;
          values = addString ''climb'' (ClimbProfile fpr) values;
          values = addString ''descent'' (DescentProfile fpr) values;
          values = addString ''cruise'' (CruiseProfile fpr) values;
          values = addString ''civalue'' (CostIndex fpr) values;
          values = (if AircraftData fpr \<noteq> None
                    then addString ''acdata'' (AircraftData_String L (AircraftData fpr)) values
                    else values);
          values = addString ''etopsrule'' (ETOPSRule fpr) values;
          values = addString ''manualrmk'' (ManualRemarks fpr) values;
          values = addString ''static_id'' (StaticID fpr) values;
          values = addString ''planformat'' (PlanFormat fpr) values;
          values = addString ''units'' (Units fpr) values;
          values = addBool ''navlog'' (NavLog fpr) values;
          values = addBool ''etops'' (ETOPS fpr) values;
          values = addBool ''stepclimbs'' (StepClimbs fpr) values;
          values = addBool ''tlr'' (RunwayAnalysis fpr) values;
          values = addBool ''notams'' (NOTAMs fpr) values;
          values = addBool ''firnot'' (FIRNOTAMs fpr) values;
          values = addString ''maps'' (Maps fpr) values;
          values = addBool ''omit_sids'' (OmitSIDs fpr) values;
          values = addBool ''omit_stars'' (OmitSTARs fpr) values;
          values = addString ''find_sidstar'' (FindSIDSTAR fpr) values
      in values)"

text \<open>\<^verbatim>\<open>func (fpr *FlightPlanRequest) Validate() error\<close>; \<open>None\<close> is \<^verbatim>\<open>nil\<close>.\<close>

definition Validate :: "FlightPlanRequest \<Rightarrow> error option" where
  "Validate fpr =
     (if Origin fpr = [] then Some ErrMissingOrigin
      else if Destination fpr = [] then Some ErrMissingDestination
      else if Aircraft fpr = [] then Some ErrMissingAircraft
      else None)"

subsection \<open>The fields of a request and their wire names\<close>

text \<open>
  The declaration of \<^verbatim>\<open>FlightPlanRequest\<close> gives every field a wire name in its
  \<^verbatim>\<open>form\<close> tag. \<open>form_fields\<close> is that declaration read as a table: the wire name and the
  value of every field, with the kind of the field.
\<close>

datatype field =
    FString string
  | FInt int
  | FFloat float64
  | FBool "bool option"
  | FAircraftData "AircraftData option"

definition form_fields :: "FlightPlanRequest \<Rightarrow> (string \<times> field) list" where
  "form_fields fpr =
     [(''orig'', FString (Origin fpr)),
      (''dest'', FString (Destination fpr)),
      (''type'', FString (Aircraft fpr)),
      (''airline'', FString (Airline fpr)),
      (''fltnum'', FString (FlightNumber fpr)),
      (''date'', FString (Date fpr)),
      (''deph'', FInt (DepartureHour fpr)),
      (''depm'', FInt (DepartureMinute fpr)),
      (''route'', FString (Route fpr)),
      (''steh'', FInt (ScheduledHour fpr)),
      (''stem'', FInt (ScheduledMinute fpr)),
      (''reg'', FString (Registration fpr)),
      (''fin'', FString (FinNumber fpr)),
      (''selcal'', FString (SELCAL fpr)),
      (''callsign'', FString (ATCCallsign fpr)),
      (''pax'', FInt (Passengers fpr)),
      (''cpt'', FString (CaptainName fpr)),
      (''dxname'', FString (DispatcherName fpr)),
      (''pid'', FString (PilotID fpr)),
      (''altn'', FString (Alternate fpr)),
      (''fl'', FString (Altitude fpr)),
      (''altn_count'', FInt (AltnCount fpr)),
      (''altn_avoid'', FString (AltnAvoid fpr)),
      (''altn_1_id'', FString (Altn1ID fpr)),
      (''altn_1_rwy'', FString (Altn1Runway fpr)),
      (''altn_1_route'', FString (Altn1Route fpr)),
      (''altn_2_id'', FString (Altn2ID fpr)),
      (''altn_2_rwy'', FString (Altn2Runway fpr)),
      (''altn_2_route'', FString (Altn2Route fpr)),
      (''altn_3_id'', FString (Altn3ID fpr)),
      (''altn_3_rwy'', FString (Altn3Runway fpr)),
      (''altn_3_route'', FString (Altn3Route fpr)),
      (''altn_4_id'', FString (Altn4ID fpr)),
      (''altn_4_rwy'', FString (Altn4Runway fpr)),
      (''altn_4_route'', FString (Altn4Route fpr)),
      (''fuelfactor'', FString (FuelFactor fpr)),
      (''manualzfw'', FFloat (ManualZFW fpr)),
      (''addedfuel'', FString (AddedFuel fpr)),
      (''addedfuel_units'', FString (AddedFuelUnits fpr)),
      (''contpct'', FString (ContFuelPct fpr)),
      (''resvrule'', FInt (ReserveFuel fpr)),
      (''cargo'', FFloat (Cargo fpr)),
      (''taxiout'', FInt (TaxiOut fpr)),
      (''taxiin'', FInt (TaxiIn fpr)),
      (''origrwy'', FString (OriginRunway fpr)),
      (''destrwy'', FString (DestRunway fpr)),
      (''climb'', FString (ClimbProfile fpr)),
      (''descent'', FString (DescentProfile fpr)),
      (''cruise'', FString (CruiseProfile fpr)),
      (''civalue'', FString (CostIndex fpr)),
      (''acdata'', FAircraftData (AircraftData fpr)),
      (''etopsrule'', FString (ETOPSRule fpr)),
      (''manualrmk'', FString (ManualRemarks fpr)),
      (''static_id'', FString (StaticID fpr)),
      (''planformat'', FString (PlanFormat fpr)),
      (''units'', FString (Units fpr)),
      (''navlog'', FBool (NavLog fpr)),
      (''etops'', FBool (ETOPS fpr)),
      (''stepclimbs'', FBool (StepClimbs fpr)),
      (''tlr'', FBool (RunwayAnalysis fpr)),
      (''notams'', FBool (NOTAMs fpr)),
      (''firnot'', FBool (FIRNOTAMs fpr)),
      (''maps'', FString (Maps fpr)),
      (''omit_sids'', FBool (OmitSIDs fpr)),
      (''omit_stars'', FBool (OmitSTARs fpr)),
      (''find_sidstar'', FString (FindSIDSTAR fpr))]"

text \<open>
  The rule of the specification for the parameter of a field: nothing for an empty
  string, a zero number or a \<^verbatim>\<open>nil\<close> pointer; otherwise the string itself, the decimal
  digits of the integer, the rendering of the float, \<open>1\<close> or \<open>0\<close> for a boolean, and the
  JSON text of the aircraft data.
\<close>

fun spec_param :: "stdlib \<Rightarrow> field \<Rightarrow> string option" where
  "spec_param L (FString s) = (if s = [] then None else Some s)"
| "spec_param L (FInt i) = (if i = 0 then None else Some (Itoa i))"
| "spec_param L (FFloat f) = (if float64_is_zero f then None else Some (FormatFloat L f))"
| "spec_param L (FBool None) = None"
| "spec_param L (FBool (Some b)) = Some (if b then ''1'' else ''0'')"
| "spec_param L (FAircraftData None) = None"
| "spec_param L (FAircraftData (Some ad)) = Some (AircraftData_String L (Some ad))"

text \<open>The same rule with the one difference the code makes: aircraft data whose JSON
  text is empty, because \<^verbatim>\<open>json.Marshal\<close> failed, gives no parameter.\<close>

fun code_param :: "stdlib \<Rightarrow> field \<Rightarrow> string option" where
  "code_param L (FAircraftData (Some ad)) =
     (if AircraftData_String L (Some ad) = [] then None
      else Some (AircraftData_String L (Some ad)))"
| "code_param L f = spec_param L f"

text \<open>The statement of \<^verbatim>\<open>ToURLValues\<close> that adds the field \<open>f\<close> under the key \<open>k\<close>.\<close>

fun add_field :: "stdlib \<Rightarrow> string \<times> field \<Rightarrow> Values \<Rightarrow> Values" where
  "add_field L (k, FString s) values = addString k s values"
| "add_field L (k, FInt i) values = addInt k i values"
| "add_field L (k, FFloat f) values = addFloat L k f values"
| "add_field L (k, FBool b) values = addBool k b values"
| "add_field L (k, FAircraftData ad) values =
     (if ad \<noteq> None then addString k (AircraftData_String L ad) values else values)"

subsection \<open>Sample values for the examples\<close>

text \<open>
  The closed examples need a value for the parameters of the model. \<open>stdlib0\<close> renders
  every float as \<open>40.1\<close> and quotes a string without escaping it; the examples render no
  other float and quote no string that needs escaping.
\<close>

definition stdlib0 :: stdlib where
  "stdlib0 =
     \<lparr>FormatFloat = (\<lambda>f. ''40.1''),
      jsonFloat = (\<lambda>f. ''40.1''),
      jsonString = (\<lambda>s. [CHR 0x22] @ s @ [CHR 0x22])\<rparr>"

text \<open>An \<^verbatim>\<open>AircraftData\<close> with every field zero but the operating empty weight.\<close>

definition AircraftData_OEW :: "float64 \<Rightarrow> AircraftData" where
  "AircraftData_OEW w =
     \<lparr>Category = [], Equipment = [], Transponder = [], PBN = [], ExtraRemark = [],
      MaxPax = [], OEW = w, MZFW = 0, MTOW = 0, MLW = 0, MaxFuel = 0, HexCode = [],
      Per = [], PaxWgt = 0, ICAO = [], Name = [], Engines = []\<rparr>"

text \<open>The quiet NaN that \<^verbatim>\<open>math.NaN()\<close> returns.\<close>

definition float64_NaN :: float64 where
  "float64_NaN = 0x7FF8000000000001"

text \<open>A request whose aircraft data is present and has a NaN for a weight.\<close>

definition request_NaN :: FlightPlanRequest where
  "request_NaN =
     (NewFlightPlanRequest ''KJFK'' ''KLAX'' ''B738'')
       \<lparr>AircraftData := Some (AircraftData_OEW float64_NaN)\<rparr>"

text \<open>The entry of \<^verbatim>\<open>values\<close> that a field of the table gives, if it gives one.\<close>

definition param_entry :: "stdlib \<Rightarrow> string \<times> field \<Rightarrow> (string \<times> string list) option" where
  "param_entry L kf = map_option (\<lambda>x. (fst kf, [x])) (code_param L (snd kf))"

section \<open>Package client\<close>

text \<open>\<^verbatim>\<open>type Client struct\<close>, without its HTTP client.\<close>

record Client =
  APIKey :: string
  BaseURL :: string

text \<open>\<^verbatim>\<open>func NewClient(apiKey string) *Client\<close>, with \<^verbatim>\<open>DefaultBaseURL\<close>.\<close>

definition NewClient :: "string \<Rightarrow> Client" where
  "NewClient apiKey = \<lparr>APIKey = apiKey, BaseURL = ''https://www.simbrief.com''\<rparr>"

definition endpointXMLFetcher :: string where
  "endpointXMLFetcher = ''/api/xml.fetcher.php''"

definition endpointGenerate :: string where
  "endpointGenerate = ''/system/dispatch.php''"

text \<open>The \<^verbatim>\<open>values\<close> that \<^verbatim>\<open>GenerateFlightPlanURL\<close> encodes.\<close>

definition GenerateFlightPlanURL_values :: "stdlib \<Rightarrow> Client \<Rightarrow> FlightPlanRequest \<Rightarrow> Values" where
  "GenerateFlightPlanURL_values L c req =
     (let values = ToURLValues L req in
      if APIKey c \<noteq> [] then Add ''api_key'' (APIKey c) values else values)"

text \<open>\<^verbatim>\<open>func (c *Client) GenerateFlightPlanURL(req *types.FlightPlanRequest) string\<close>\<close>

definition GenerateFlightPlanURL :: "stdlib \<Rightarrow> Client \<Rightarrow> FlightPlanRequest \<Rightarrow> string" where
  "GenerateFlightPlanURL L c req =
     BaseURL c @ endpointGenerate @ ''?'' @ Encode (GenerateFlightPlanURL_values L c req)"

text \<open>The URL that \<^verbatim>\<open>fetchFlightPlan\<close> and \<^verbatim>\<open>GetFlightPlanXML\<close> request:
  \<^verbatim>\<open>c.BaseURL + endpointXMLFetcher + req.ToQueryParams()\<close>.\<close>

definition fetchFlightPlan_fullURL :: "Client \<Rightarrow> FetchRequest \<Rightarrow> string" where
  "fetchFlightPlan_fullURL c req = BaseURL c @ endpointXMLFetcher @ ToQueryParams req"

text \<open>\<^verbatim>\<open>func (c *Client) ValidateFlightPlanRequest(req *types.FlightPlanRequest) error\<close>\<close>

definition ValidateFlightPlanRequest :: "FlightPlanRequest \<Rightarrow> error option" where
  "ValidateFlightPlanRequest req =
     (if Origin req = [] then Some ErrOriginRequired
      else if Destination req = [] then Some ErrDestinationRequired
      else if Aircraft req = [] then Some ErrAircraftRequired
      else if length (Origin req) \<noteq> 4 then Some ErrOriginLength
      else if length (Destination req) \<noteq> 4 then Some ErrDestinationLength
      else if DepartureHour req \<noteq> 0 \<and> (DepartureHour req < 0 \<or> DepartureHour req > 23)
        then Some ErrDepartureHourRange
      else if DepartureMinute req \<noteq> 0 \<and> (DepartureMinute req < 0 \<or> DepartureMinute req > 59)
        then Some ErrDepartureMinuteRange
      else None)"

text \<open>
  The order of the checks as the specification lists it: each check with the failure it
  reports; the validator is to report the first check that fails.
\<close>

definition validation_checks :: "FlightPlanRequest \<Rightarrow> (bool \<times> error) list" where
  "validation_checks req =
     [(Origin req = [], ErrOriginRequired),
      (Destination req = [], ErrDestinationRequired),
      (Aircraft req = [], ErrAircraftRequired),
      (length (Origin req) \<noteq> 4, ErrOriginLength),
      (length (Destination req) \<noteq> 4, ErrDestinationLength),
      (DepartureHour req \<noteq> 0 \<and> \<not> (0 \<le> DepartureHour req \<and> DepartureHour req \<le> 23),
         ErrDepartureHourRange),
      (DepartureMinute req \<noteq> 0 \<and> \<not> (0 \<le> DepartureMinute req \<and> DepartureMinute req \<le> 59),
         ErrDepartureMinuteRange)]"

fun first_failure :: "(bool \<times> error) list \<Rightarrow> error option" where
  "first_failure [] = None"
| "first_failure ((failed, err) # checks) = (if failed then Some err else first_failure checks)"

subsection \<open>RouteHelper\<close>




text \<open>\<^verbatim>\<open>func (rh *RouteHelper) FormatFlightLevel(feet int) string\<close>; the division of Go
  truncates toward zero.\<close>

definition FormatFlightLevel :: "int \<Rightarrow> string" where
  "FormatFlightLevel feet = (let fl = feet sdiv 100 in ''FL'' @ Sprintf_0d 3 fl)"

text \<open>\<^verbatim>\<open>func (rh *RouteHelper) ParseFlightLevel(flStr string) (int, error)\<close>\<close>

definition ParseFlightLevel :: "string \<Rightarrow> error + int" where
  "ParseFlightLevel flStr0 =
     (let flStr = ToUpper (TrimSpace flStr0) in
      if HasPrefix flStr ''FL'' then
        (let flStr = TrimPrefix flStr ''FL'' in
         case Atoi flStr of
           None \<Rightarrow> Inl (ErrInvalidFlightLevel flStr)
         | Some fl \<Rightarrow> Inr (wrap64 (fl * 100)))
      else
        (case Atoi flStr of
           None \<Rightarrow> Inl (ErrInvalidAltitude flStr)
         | Some feet \<Rightarrow> Inr feet))"

subsection \<open>TimeHelper\<close>

text \<open>\<^verbatim>\<open>func (th *TimeHelper) ParseTimeString(timeStr string) (int, int, error)\<close>\<close>

definition ParseTimeString :: "string \<Rightarrow> error + (int \<times> int)" where
  "ParseTimeString timeStr =
     (let parts = Split timeStr (CHR '':'') in
      if length parts \<noteq> 2 then Inl ErrInvalidTimeFormat
      else (case Atoi (parts ! 0) of
              None \<Rightarrow> Inl (ErrInvalidHour (parts ! 0))
            | Some hour \<Rightarrow>
                (case Atoi (parts ! 1) of
                   None \<Rightarrow> Inl (ErrInvalidMinute (parts ! 1))
                 | Some minute \<Rightarrow>
                     if hour < 0 \<or> hour > 23 then Inl ErrHourRange
                     else if minute < 0 \<or> minute > 59 then Inl ErrMinuteRange
                     else Inr (hour, minute))))"

text \<open>\<^verbatim>\<open>func (th *TimeHelper) ParseDuration(durationStr string) (int, error)\<close>\<close>

definition ParseDuration :: "string \<Rightarrow> error + int" where
  "ParseDuration durationStr =
     (case ParseTimeString durationStr of
        Inl err \<Rightarrow> Inl err
      | Inr (hour, minute) \<Rightarrow> Inr (hour * 60 + minute))"

text \<open>\<^verbatim>\<open>func (th *TimeHelper) FormatDuration(totalMinutes int) string\<close>; Go's \<^verbatim>\<open>/\<close>
  and \<^verbatim>\<open>%\<close> truncate toward zero.\<close>

definition FormatDuration :: "int \<Rightarrow> string" where
  "FormatDuration totalMinutes =
     (let hours = totalMinutes sdiv 60;
          minutes = totalMinutes smod 60
      in Sprintf_0d 2 hours @ '':'' @ Sprintf_0d 2 minutes)"

section \<open>Package types: the static ID of a response\<close>

subsection \<open>UTF-8\<close>

definition byte :: "char \<Rightarrow> nat" where
  "byte c = of_char c"

text \<open>A continuation byte, \<open>0x80\<close> to \<open>0xBF\<close>.\<close>

definition isCont :: "char \<Rightarrow> bool" where
  "isCont c = (0x80 \<le> byte c \<and> byte c \<le> 0xBF)"

text \<open>
  The width of the UTF-8 encoding at the head of a string, as \<^verbatim>\<open>utf8.DecodeRune\<close> finds
  it, and 0 where it returns \<^verbatim>\<open>(RuneError, 1)\<close> or the string is empty: one byte below
  \<open>0x80\<close>; a first byte \<open>0xC2\<close> to \<open>0xDF\<close> and one continuation byte; a first byte
  \<open>0xE0\<close> to \<open>0xEF\<close> and two; a first byte \<open>0xF0\<close> to \<open>0xF4\<close> and three; the second
  byte is at least \<open>0xA0\<close> after \<open>0xE0\<close>, at most \<open>0x9F\<close> after \<open>0xED\<close>, at least
  \<open>0x90\<close> after \<open>0xF0\<close> and at most \<open>0x8F\<close> after \<open>0xF4\<close>.
\<close>

fun validRuneLen :: "string \<Rightarrow> nat" where
  "validRuneLen [] = 0"
| "validRuneLen (b0 # rest) =
     (if byte b0 < 0x80 then 1
      else if 0xC2 \<le> byte b0 \<and> byte b0 \<le> 0xDF then
        (case rest of
           b1 # _ \<Rightarrow> if isCont b1 then 2 else 0
         | _ \<Rightarrow> 0)
      else if 0xE0 \<le> byte b0 \<and> byte b0 \<le> 0xEF then
        (case rest of
           b1 # b2 # _ \<Rightarrow>
             if (if byte b0 = 0xE0 then 0xA0 else 0x80) \<le> byte b1 \<and>
                byte b1 \<le> (if byte b0 = 0xED then 0x9F else 0xBF) \<and> isCont b2
             then 3 else 0
         | _ \<Rightarrow> 0)
      else if 0xF0 \<le> byte b0 \<and> byte b0 \<le> 0xF4 then
        (case rest of
           b1 # b2 # b3 # _ \<Rightarrow>
             if (if byte b0 = 0xF0 then 0x90 else 0x80) \<le> byte b1 \<and>
                byte b1 \<le> (if byte b0 = 0xF4 then 0x8F else 0xBF) \<and> isCont b2 \<and> isCont b3
             then 4 else 0
         | _ \<Rightarrow> 0)
      else 0)"

text \<open>\<^verbatim>\<open>utf8.ValidString\<close>.\<close>

function ValidString :: "string \<Rightarrow> bool" where
  "ValidString [] = True"
| "ValidString (b # bs) =
     (if validRuneLen (b # bs) = 0 then False
      else ValidString (drop (validRuneLen (b # bs)) (b # bs)))"
  by pat_completeness auto
termination
  by (relation "measure length") (auto simp del: validRuneLen.simps)

text \<open>The encoding of U+FFFD, the replacement character.\<close>

definition replacement :: string where
  "replacement = [CHR 0xEF, CHR 0xBF, CHR 0xBD]"

text \<open>
  What \<^verbatim>\<open>encoding/json\<close> makes of a Go string when it writes it: every byte that is not
  part of a valid encoding becomes the replacement character.
\<close>

function toValidUTF8 :: "string \<Rightarrow> string" where
  "toValidUTF8 [] = []"
| "toValidUTF8 (b # bs) =
     (if validRuneLen (b # bs) = 0 then replacement @ toValidUTF8 bs
      else take (validRuneLen (b # bs)) (b # bs) @
           toValidUTF8 (drop (validRuneLen (b # bs)) (b # bs)))"
  by pat_completeness auto
termination
  by (relation "measure length") (auto simp del: validRuneLen.simps)

subsection \<open>JSON values and json.Unmarshal\<close>

text \<open>
  A JSON value. \<open>JNumber m e\<close> is a number literal of value \<open>m * 10 ^ e\<close>; \<open>JString s\<close> is
  a string literal that stands for the Go string \<open>s\<close>.
\<close>

datatype json =
    JNull
  | JBool bool
  | JNumber int int
  | JString string
  | JArray "json list"
  | JObject "(string \<times> json) list"

text \<open>
  The bytes that \<open>MarshalJSON\<close> returns and \<open>UnmarshalJSON\<close> receives are modelled by
  what the scanner of \<^verbatim>\<open>encoding/json\<close> makes of them: not a JSON text, or the text of a
  JSON value.
\<close>

datatype raw_json = Malformed | Wellformed json

text \<open>
  \<^verbatim>\<open>strconv.ParseFloat(s, 64)\<close> fails with a range error when the number rounds to an
  infinity: when it is, in absolute value, at least \<open>2 ^ 1024 - 2 ^ 970\<close>, half a unit in
  the last place above the largest \<^verbatim>\<open>float64\<close>.
\<close>

definition overflows_float64 :: "int \<Rightarrow> int \<Rightarrow> bool" where
  "overflows_float64 m e =
     (if 0 \<le> e then 2 ^ 1024 - 2 ^ 970 \<le> \<bar>m\<bar> * 10 ^ nat e
      else (2 ^ 1024 - 2 ^ 970) * 10 ^ nat (- e) \<le> \<bar>m\<bar>)"

text \<open>Decoding a value into an \<^verbatim>\<open>interface{}\<close> fails only on a number that does not fit
  a \<^verbatim>\<open>float64\<close>, at any depth.\<close>

fun numbers_fit :: "json \<Rightarrow> bool" where
  "numbers_fit (JNumber m e) = (\<not> overflows_float64 m e)"
| "numbers_fit (JArray xs) = list_all numbers_fit xs"
| "numbers_fit (JObject kvs) = list_all numbers_fit (map snd kvs)"
| "numbers_fit JNull = True"
| "numbers_fit (JBool b) = True"
| "numbers_fit (JString s) = True"

text \<open>
  \<^verbatim>\<open>json.Unmarshal(data, &str)\<close> for a \<^verbatim>\<open>string\<close> variable that holds \<open>str\<close>: a string
  literal is stored, \<^verbatim>\<open>null\<close> has no effect and is no error, every other value is a
  \<^verbatim>\<open>json.UnmarshalTypeError\<close>.
\<close>

fun json_Unmarshal_string :: "raw_json \<Rightarrow> string \<Rightarrow> error + string" where
  "json_Unmarshal_string Malformed str = Inl ErrJSONSyntax"
| "json_Unmarshal_string (Wellformed (JString s)) str = Inr s"
| "json_Unmarshal_string (Wellformed JNull) str = Inr str"
| "json_Unmarshal_string (Wellformed v) str = Inl ErrJSONUnmarshalType"

text \<open>
  \<^verbatim>\<open>json.Unmarshal(data, &obj)\<close> for a \<^verbatim>\<open>map[string]interface{}\<close>; the map it fills is
  not used by the caller, so only the error is returned, \<open>None\<close> for \<^verbatim>\<open>nil\<close>: an object
  is decoded, \<^verbatim>\<open>null\<close> is no error, every other value is a \<^verbatim>\<open>json.UnmarshalTypeError\<close>.
\<close>

fun json_Unmarshal_map :: "raw_json \<Rightarrow> error option" where
  "json_Unmarshal_map Malformed = Some ErrJSONSyntax"
| "json_Unmarshal_map (Wellformed (JObject kvs)) =
     (if numbers_fit (JObject kvs) then None else Some ErrJSONUnmarshalType)"
| "json_Unmarshal_map (Wellformed JNull) = None"
| "json_Unmarshal_map (Wellformed v) = Some ErrJSONUnmarshalType"

text \<open>\<^verbatim>\<open>json.Marshal\<close> of a string: the literal of the string made valid UTF-8.\<close>

definition json_Marshal_string :: "string \<Rightarrow> error + raw_json" where
  "json_Marshal_string s = Inr (Wellformed (JString (toValidUTF8 s)))"

subsection \<open>StaticIDField\<close>

record StaticIDField =
  Value :: string

text \<open>\<^verbatim>\<open>func (s *StaticIDField) UnmarshalJSON(data []byte) error\<close>: the result is the
  error, or the field as the call leaves it.\<close>

definition UnmarshalJSON :: "StaticIDField \<Rightarrow> raw_json \<Rightarrow> error + StaticIDField" where
  "UnmarshalJSON s data =
     (case json_Unmarshal_string data [] of
        Inr str \<Rightarrow> Inr (s\<lparr>Value := str\<rparr>)
      | Inl err \<Rightarrow>
          (case json_Unmarshal_map data of
             None \<Rightarrow> Inr (s\<lparr>Value := []\<rparr>)
           | Some err' \<Rightarrow> Inl ErrStaticID))"

text \<open>\<^verbatim>\<open>func (s StaticIDField) MarshalJSON() ([]byte, error)\<close>\<close>

definition MarshalJSON :: "StaticIDField \<Rightarrow> error + raw_json" where
  "MarshalJSON s =
     (if Value s = [] then Inr (Wellformed (JObject []))
      else json_Marshal_string (Value s))"

text \<open>Encoding a static ID and decoding the bytes into a fresh field.\<close>

definition static_id_round_trip :: "string \<Rightarrow> error + StaticIDField" where
  "static_id_round_trip v =
     (case MarshalJSON \<lparr>Value = v\<rparr> of
        Inl err \<Rightarrow> Inl err
      | Inr data \<Rightarrow> UnmarshalJSON \<lparr>Value = []\<rparr> data)"

section \<open>Evaluation of the library functions\<close>

lemma digitChar_eval:
  "digitChar 0 = CHR ''0''" "digitChar 1 = CHR ''1''" "digitChar 2 = CHR ''2''"
  "digitChar 3 = CHR ''3''" "digitChar 4 = CHR ''4''" "digitChar 5 = CHR ''5''"
  "digitChar 6 = CHR ''6''" "digitChar 7 = CHR ''7''" "digitChar 8 = CHR ''8''"
  "digitChar 9 = CHR ''9''" "digitChar (Suc 0) = CHR ''1''"
  by code_simp+

lemmas eval_defs =
  Split_def Atoi_def isDigit_def digitVal_def minInt64_def maxInt64_def

lemmas fmt_defs =
  Sprintf_0d_def natDigits.simps digitChar_eval signed_divide_int_def signed_modulo_int_def

section \<open>TimeHelper: the time-string parser and the duration parser\<close>

text \<open>
  C6. The time-string parser returns \<open>(hour, minute)\<close> exactly when the input splits on
  \<open>:\<close> into two parts, both parts parse as integers (\<^verbatim>\<open>strconv.Atoi\<close>), the hour is in
  \<open>[0,23]\<close> and the minute in \<open>[0,59]\<close>; every other input is an error. \<open>25:30\<close> fails
  with the hour-range error, \<open>14:60\<close> with the minute-range error, and \<open>14:30\<close> yields
  \<open>(14, 30)\<close>.
\<close>

theorem ParseTimeString_success_iff:
  "(ParseTimeString s = Inr (h, m)) =
     (\<exists>a b. Split s (CHR '':'') = [a, b] \<and> Atoi a = Some h \<and> Atoi b = Some m \<and>
            0 \<le> h \<and> h \<le> 23 \<and> 0 \<le> m \<and> m \<le> 59)
   \<and> ((\<exists>e. ParseTimeString s = Inl e) = (\<forall>h' m'. ParseTimeString s \<noteq> Inr (h', m')))
   \<and> ParseTimeString ''25:30'' = Inl ErrHourRange
   \<and> ParseTimeString ''14:60'' = Inl ErrMinuteRange
   \<and> ParseTimeString ''14:30'' = Inr (14, 30)"
proof -
  have len2: "(length xs = 2) = (\<exists>a b. xs = [a, b])" for xs :: "string list"
    by (cases xs; simp; cases "tl xs"; auto)
  have succ: "(ParseTimeString s = Inr (h, m)) =
     (\<exists>a b. Split s (CHR '':'') = [a, b] \<and> Atoi a = Some h \<and> Atoi b = Some m \<and>
            0 \<le> h \<and> h \<le> 23 \<and> 0 \<le> m \<and> m \<le> 59)"
  proof (cases "length (Split s (CHR '':'')) = 2")
    case True
    then obtain a b where ab: "Split s (CHR '':'') = [a, b]"
      using len2 by blast
    show ?thesis
      by (auto simp: ParseTimeString_def ab Let_def split: option.splits if_splits)
  next
    case False
    then show ?thesis
      by (auto simp: ParseTimeString_def Let_def)
  qed
  have tot: "(\<exists>e. ParseTimeString s = Inl e) = (\<forall>h' m'. ParseTimeString s \<noteq> Inr (h', m'))"
    by (cases "ParseTimeString s") auto
  have e1: "ParseTimeString ''25:30'' = Inl ErrHourRange"
    by (simp add: ParseTimeString_def eval_defs)
  have e2: "ParseTimeString ''14:60'' = Inl ErrMinuteRange"
    by (simp add: ParseTimeString_def eval_defs)
  have e3: "ParseTimeString ''14:30'' = Inr (14, 30)"
    by (simp add: ParseTimeString_def eval_defs)
  from succ tot e1 e2 e3 show ?thesis by blast
qed

theorem ParseTimeString_success_iff_witness:
  "ParseTimeString ''23:59'' = Inr (23, 59) \<and>
   (\<exists>a b. Split ''23:59'' (CHR '':'') = [a, b] \<and> Atoi a = Some 23 \<and> Atoi b = Some 59)"
  using ParseTimeString_success_iff [of "''23:59''" 23 59]
  by (simp add: ParseTimeString_def eval_defs)

text \<open>
  C4. The claim is that the duration parser accepts an hour above 23. The code delegates
  to \<open>ParseTimeString\<close> and keeps its wall-clock check, so it rejects \<open>25:00\<close>, the string
  that \<open>FormatDuration\<close> itself produces for 1500 minutes.
\<close>

theorem ParseDuration_rejects_25_00:
  "FormatDuration 1500 = ''25:00'' \<and> ParseDuration ''25:00'' = Inl ErrHourRange"
  by (simp add: FormatDuration_def fmt_defs ParseDuration_def ParseTimeString_def eval_defs)

section \<open>The two validators\<close>

text \<open>
  C3. \<open>ValidateFlightPlanRequest\<close> returns the first failure of the checks in the order
  of the specification (missing origin, missing destination, missing aircraft type, origin
  not of length 4, destination not of length 4, departure hour not zero and outside
  \<open>[0,23]\<close>, departure minute not zero and outside \<open>[0,59]\<close>), and success when no
  check fails. A request with neither origin nor destination reports the origin error and
  not the destination error. The length of a code is the length of the Go string.
\<close>

theorem ValidateFlightPlanRequest_first_failure:
  "ValidateFlightPlanRequest req = first_failure (validation_checks req)
   \<and> (Origin req = [] \<and> Destination req = [] \<longrightarrow>
        ValidateFlightPlanRequest req = Some ErrOriginRequired
        \<and> ValidateFlightPlanRequest req \<noteq> Some ErrDestinationRequired)"
  by (simp add: ValidateFlightPlanRequest_def validation_checks_def not_le not_less)

theorem ValidateFlightPlanRequest_first_failure_witness:
  "Origin (NewFlightPlanRequest [] [] ''B738'') = []
   \<and> Destination (NewFlightPlanRequest [] [] ''B738'') = []
   \<and> ValidateFlightPlanRequest (NewFlightPlanRequest [] [] ''B738'') = Some ErrOriginRequired
   \<and> first_failure (validation_checks (NewFlightPlanRequest [] [] ''B738'')) = Some ErrOriginRequired"
  using ValidateFlightPlanRequest_first_failure [of "NewFlightPlanRequest [] [] ''B738''"]
  by (simp add: NewFlightPlanRequest_def ValidateFlightPlanRequest_def validation_checks_def)

text \<open>
  C10. \<open>Validate\<close>, the method of the request model, checks only that origin, destination
  and aircraft type are not empty: with the three present it returns \<^verbatim>\<open>nil\<close>, whatever
  the length of the codes and the departure time. The witness shows two such requests that
  \<open>ValidateFlightPlanRequest\<close> rejects, one for the length of the origin and one for the
  departure hour.
\<close>

theorem Validate_required_fields_only:
  "(Origin fpr \<noteq> [] \<and> Destination fpr \<noteq> [] \<and> Aircraft fpr \<noteq> [] \<longrightarrow> Validate fpr = None)
   \<and> (Validate fpr = None) = (Origin fpr \<noteq> [] \<and> Destination fpr \<noteq> [] \<and> Aircraft fpr \<noteq> [])"
  by (simp add: Validate_def)

theorem Validate_required_fields_only_witness:
  "Validate ((NewFlightPlanRequest ''JFK'' ''LAX'' ''B738'')\<lparr>DepartureHour := 99\<rparr>) = None
   \<and> ValidateFlightPlanRequest ((NewFlightPlanRequest ''JFK'' ''LAX'' ''B738'')\<lparr>DepartureHour := 99\<rparr>)
       = Some ErrOriginLength
   \<and> Validate ((NewFlightPlanRequest ''KJFK'' ''KLAX'' ''B738'')\<lparr>DepartureHour := 99\<rparr>) = None
   \<and> ValidateFlightPlanRequest ((NewFlightPlanRequest ''KJFK'' ''KLAX'' ''B738'')\<lparr>DepartureHour := 99\<rparr>)
       = Some ErrDepartureHourRange"
  using Validate_required_fields_only [of "(NewFlightPlanRequest ''JFK'' ''LAX'' ''B738'')\<lparr>DepartureHour := 99\<rparr>"]
    Validate_required_fields_only [of "(NewFlightPlanRequest ''KJFK'' ''KLAX'' ''B738'')\<lparr>DepartureHour := 99\<rparr>"]
  by (simp add: NewFlightPlanRequest_def ValidateFlightPlanRequest_def)

section \<open>RouteHelper: the flight-level formatter and parser\<close>

subsection \<open>Decimal digits\<close>

lemma digitChar_digit: "d < 10 \<Longrightarrow> isDigit (digitChar d) \<and> digitVal (digitChar d) = d"
  unfolding isDigit_def digitVal_def digitChar_def by (simp add: of_char_of)

lemma parseDigits_snoc:
  "parseDigits n (xs @ [c]) =
     (case parseDigits n xs of
        None \<Rightarrow> None
      | Some m \<Rightarrow> if isDigit c then Some (m * 10 + digitVal c) else None)"
  by (induction xs arbitrary: n) auto

lemma parseDigits_natDigits: "parseDigits 0 (natDigits n) = Some n"
proof (induction n rule: natDigits.induct)
  case (1 n)
  show ?case
  proof (cases "n < 10")
    case True
    then show ?thesis
      by (subst natDigits.simps) (simp add: digitChar_digit)
  next
    case False
    have "n mod 10 < 10" by simp
    with False 1 show ?thesis
      by (subst natDigits.simps) (simp add: parseDigits_snoc digitChar_digit)
  qed
qed

lemma natDigits_digits: "c \<in> set (natDigits n) \<Longrightarrow> isDigit c"
proof (induction n rule: natDigits.induct)
  case (1 n)
  show ?case
  proof (cases "n < 10")
    case True
    with "1.prems" show ?thesis
      by (subst (asm) natDigits.simps) (simp add: digitChar_digit)
  next
    case False
    have "n mod 10 < 10" by simp
    with False 1 show ?thesis
      by (subst (asm) natDigits.simps) (auto simp: digitChar_digit)
  qed
qed

lemma natDigits_not_Nil: "natDigits n \<noteq> []"
  by (subst natDigits.simps) simp

lemma length_natDigits_1000: "n < 1000 \<Longrightarrow> length (natDigits n) \<le> 3"
  by (simp add: natDigits.simps [of n] natDigits.simps [of "n div 10"]
      natDigits.simps [of "n div 10 div 10"])

lemma parseDigits_zeros:
  "parseDigits 0 (replicate k (CHR ''0'') @ xs) = parseDigits 0 xs"
  by (induction k) (simp_all add: isDigit_def digitVal_def)

lemma isDigit_not_sign: "isDigit c \<Longrightarrow> c \<noteq> CHR ''-'' \<and> c \<noteq> CHR ''+''"
  by (auto simp: isDigit_def)

lemma Atoi_digits:
  assumes "s \<noteq> []" and "isDigit (hd s)" and "parseDigits 0 s = Some n" and "int n \<le> maxInt64"
  shows "Atoi s = Some (int n)"
proof -
  obtain c cs where s: "s = c # cs" using assms(1) by (cases s) auto
  with assms(2) have "c \<noteq> CHR ''-''" "c \<noteq> CHR ''+''" using isDigit_not_sign by auto
  with assms s show ?thesis
    by (simp add: Atoi_def Let_def minInt64_def)
qed

subsection \<open>Strings without white space and without lower-case letters\<close>

lemma TrimSpace_id:
  "s \<noteq> [] \<Longrightarrow> \<not> isSpace (hd s) \<Longrightarrow> \<not> isSpace (last s) \<Longrightarrow> TrimSpace s = s"
proof -
  assume ne: "s \<noteq> []" and h: "\<not> isSpace (hd s)" and l: "\<not> isSpace (last s)"
  have a: "dropWhile isSpace s = s"
    using ne h by (cases s) auto
  obtain x xs where r: "rev s = x # xs"
    using ne by (cases "rev s") auto
  then have "x = last s"
    using ne hd_rev [of s] by simp
  with l have b: "dropWhile isSpace (rev s) = rev s"
    unfolding r by simp
  show ?thesis
    by (simp add: TrimSpace_def a b)
qed

lemma isDigit_not_space: "isDigit c \<Longrightarrow> \<not> isSpace c"
  by (auto simp: isDigit_def isSpace_def)

lemma isDigit_toUpper: "isDigit c \<Longrightarrow> toUpperChar c = c"
  by (auto simp: isDigit_def toUpperChar_def)

lemma ToUpper_digits: "\<forall>c\<in>set s. isDigit c \<Longrightarrow> ToUpper s = s"
  by (induction s) (auto simp: ToUpper_def isDigit_toUpper)

lemma sdiv_mult_100: "0 \<le> n \<Longrightarrow> (n * 100) sdiv 100 = (n::int)"
  by (auto simp: signed_divide_int_def sgn_if)

text \<open>
  C5. For a flight level \<open>N\<close> in \<open>[0, 999]\<close>, that is \<open>N * 100\<close> feet, the formatter
  returns \<open>FL\<close> and the digits of \<open>N\<close> padded with zeros to three, and the parser, which
  trims, puts in upper case, strips \<open>FL\<close> and multiplies by 100, returns \<open>N * 100\<close> feet
  for that string.
\<close>

theorem flight_level_round_trip:
  assumes "0 \<le> N" and "N \<le> 999"
  shows "FormatFlightLevel (N * 100) =
           ''FL'' @ replicate (3 - length (natDigits (nat N))) (CHR ''0'') @ natDigits (nat N)
         \<and> ParseFlightLevel (FormatFlightLevel (N * 100)) = Inr (N * 100)"
proof -
  define pad where "pad = replicate (3 - length (natDigits (nat N))) (CHR ''0'') @ natDigits (nat N)"
  have fmt: "FormatFlightLevel (N * 100) = ''FL'' @ pad"
    using assms by (simp add: FormatFlightLevel_def sdiv_mult_100 Sprintf_0d_def pad_def Let_def)
  have zero: "isDigit (CHR ''0'')"
    by (simp add: isDigit_def)
  have digits: "\<forall>c\<in>set pad. isDigit c"
    using zero by (auto simp: pad_def dest: natDigits_digits)
  have ne: "pad \<noteq> []"
    by (simp add: pad_def natDigits_not_Nil)
  have "last (''FL'' @ pad) = last pad" using ne by simp
  moreover have "last pad \<in> set pad" using ne by simp
  ultimately have "\<not> isSpace (last (''FL'' @ pad))"
    using digits isDigit_not_space by metis
  moreover have "\<not> isSpace (hd (''FL'' @ pad))" by (simp add: isSpace_def)
  ultimately have trim: "TrimSpace (''FL'' @ pad) = ''FL'' @ pad"
    by (intro TrimSpace_id) simp_all
  have upper: "ToUpper (''FL'' @ pad) = ''FL'' @ pad"
    using ToUpper_digits [OF digits] by (simp add: ToUpper_def toUpperChar_def)
  have parse: "parseDigits 0 pad = Some (nat N)"
    by (simp add: pad_def parseDigits_zeros parseDigits_natDigits)
  have "hd pad \<in> set pad" using ne by simp
  then have "isDigit (hd pad)" using digits by blast
  then have atoi: "Atoi pad = Some N"
    using Atoi_digits [OF ne _ parse] assms by (simp add: maxInt64_def)
  have wrap: "wrap64 (N * 100) = N * 100"
    using assms by (simp add: wrap64_def)
  have "ParseFlightLevel (''FL'' @ pad) = Inr (N * 100)"
    using trim upper atoi wrap
    by (simp add: ParseFlightLevel_def HasPrefix_def TrimPrefix_def Let_def)
  with fmt show ?thesis by (simp add: pad_def)
qed

lemma replicate_2: "replicate 2 x = [x, x]"
  by (simp add: numeral_2_eq_2)

theorem flight_level_round_trip_witness:
  "FormatFlightLevel 34000 = ''FL340'' \<and> ParseFlightLevel ''FL340'' = Inr 34000
   \<and> FormatFlightLevel 500 = ''FL005'' \<and> ParseFlightLevel ''FL005'' = Inr 500"
  using flight_level_round_trip [of 340] flight_level_round_trip [of 5]
  by (auto simp: natDigits.simps digitChar_eval replicate_2)

section \<open>RouteHelper: the route tokenizer\<close>





















section \<open>The request encoder\<close>

lemma ToURLValues_fold: "ToURLValues L fpr = fold (add_field L) (form_fields fpr) []"
  by (simp add: ToURLValues_def form_fields_def Let_def)

lemma Add_fresh: "key \<notin> fst ` set v \<Longrightarrow> Add key val v = v @ [(key, [val])]"
  by (simp add: Add_def)

lemma param_entry_pair:
  "param_entry L (k, f) = map_option (\<lambda>x. (k, [x])) (code_param L f)"
  by (simp add: param_entry_def)

lemma add_field_fresh:
  assumes "k \<notin> fst ` set v"
  shows "add_field L (k, f) v = v @ (case code_param L f of None \<Rightarrow> [] | Some x \<Rightarrow> [(k, [x])])"
proof (cases f)
  case (FBool b)
  then show ?thesis
    by (cases b) (simp_all add: addBool_def Add_fresh [OF assms])
next
  case (FAircraftData ad)
  then show ?thesis
    by (cases ad) (simp_all add: addString_def Add_fresh [OF assms])
qed (simp_all add: addString_def addInt_def addFloat_def Add_fresh [OF assms])

lemma fst_param_entries:
  "fst ` set (List.map_filter (param_entry L) fs) \<subseteq> fst ` set fs"
  by (force simp: List.map_filter_def param_entry_def)

lemma fold_add_field:
  "distinct (map fst fs) \<Longrightarrow> fst ` set fs \<inter> fst ` set v = {} \<Longrightarrow>
   fold (add_field L) fs v = v @ List.map_filter (param_entry L) fs"
proof (induction fs arbitrary: v)
  case Nil
  then show ?case by simp
next
  case (Cons kf fs)
  obtain k f where kf: "kf = (k, f)" by (cases kf)
  from Cons.prems kf have fresh: "k \<notin> fst ` set v" by auto
  let ?e = "case code_param L f of None \<Rightarrow> [] | Some x \<Rightarrow> [(k, [x])]"
  have step: "add_field L kf v = v @ ?e"
    using add_field_fresh [OF fresh] kf by simp
  have "fst ` set ?e \<subseteq> {k}"
    by (auto split: option.splits)
  with Cons.prems kf have "fst ` set fs \<inter> fst ` set (v @ ?e) = {}"
    by (auto split: option.splits)
  moreover from Cons.prems have "distinct (map fst fs)" by simp
  ultimately have "fold (add_field L) fs (v @ ?e) = (v @ ?e) @ List.map_filter (param_entry L) fs"
    using Cons.IH by blast
  then show ?case
    using step by (simp add: kf param_entry_pair split: option.splits)
qed

lemma distinct_form_fields: "distinct (map fst (form_fields fpr))"
  by (simp add: form_fields_def)

lemma ToURLValues_params:
  "ToURLValues L fpr = List.map_filter (param_entry L) (form_fields fpr)"
  using fold_add_field [OF distinct_form_fields, of fpr "[]" L] by (simp add: ToURLValues_fold)

lemma map_of_param_entries:
  "distinct (map fst fs) \<Longrightarrow>
   map_of (List.map_filter (param_entry L) fs) k =
     (case map_of fs k of None \<Rightarrow> None | Some f \<Rightarrow> map_option (\<lambda>x. [x]) (code_param L f))"
proof (induction fs)
  case Nil
  then show ?case by simp
next
  case (Cons kf fs)
  obtain k' f where kf: "kf = (k', f)" by (cases kf)
  have notin: "k' \<notin> fst ` set (List.map_filter (param_entry L) fs)"
    using Cons.prems kf fst_param_entries [of L fs] by auto
  then have none: "map_of (List.map_filter (param_entry L) fs) k' = None"
    by (simp add: map_of_eq_None_iff)
  have none': "map_of fs k' = None"
    using Cons.prems kf by (simp add: map_of_eq_None_iff)
  from Cons have ih: "map_of (List.map_filter (param_entry L) fs) k =
     (case map_of fs k of None \<Rightarrow> None | Some f \<Rightarrow> map_option (\<lambda>x. [x]) (code_param L f))"
    by simp
  show ?case
  proof (cases "k = k'")
    case True
    then show ?thesis
      using none none' by (simp add: kf param_entry_pair split: option.splits)
  next
    case False
    then show ?thesis
      using ih by (simp add: kf param_entry_pair split: option.splits)
  qed
qed

lemma distinct_ToURLValues: "distinct (map fst (ToURLValues L fpr))"
proof -
  have "distinct (map fst fs) \<Longrightarrow> distinct (map fst (List.map_filter (param_entry L) fs))" for fs
  proof (induction fs)
    case Nil
    then show ?case by simp
  next
    case (Cons kf fs)
    have "fst kf \<notin> fst ` set (List.map_filter (param_entry L) fs)"
      using Cons.prems fst_param_entries [of L fs] by auto
    with Cons show ?case
      by (cases kf) (auto simp: param_entry_pair split: option.splits)
  qed
  then show ?thesis
    by (simp add: ToURLValues_params distinct_form_fields)
qed

lemma ToURLValues_lookup:
  "map_of (ToURLValues L fpr) k =
     (case map_of (form_fields fpr) k of
        None \<Rightarrow> None
      | Some f \<Rightarrow> map_option (\<lambda>x. [x]) (code_param L f))"
  by (simp add: ToURLValues_params map_of_param_entries distinct_form_fields)

lemma NaN_eval: "float64_is_nan_or_inf float64_NaN" "\<not> float64_is_zero float64_NaN"
  by (simp_all add: float64_is_nan_or_inf_def float64_NaN_def float64_is_zero_def)

lemma json_Marshal_AircraftData_not_empty:
  "json_Marshal_AircraftData L ad = Inr data \<Longrightarrow> data \<noteq> []"
  by (auto simp: json_Marshal_AircraftData_def split: if_splits)

lemma AircraftData_String_empty_iff:
  "(AircraftData_String L (Some ad) = []) =
     list_ex float64_is_nan_or_inf [OEW ad, MZFW ad, MTOW ad, MLW ad, MaxFuel ad]"
  by (auto simp: AircraftData_String_def json_Marshal_AircraftData_def)

lemma code_param_spec_param:
  "code_param L f =
     (case f of
        FAircraftData (Some ad) \<Rightarrow>
          if list_ex float64_is_nan_or_inf [OEW ad, MZFW ad, MTOW ad, MLW ad, MaxFuel ad]
          then None else spec_param L f
      | _ \<Rightarrow> spec_param L f)"
  using AircraftData_String_empty_iff
  by (cases f) (auto split: option.splits)

text \<open>
  C1, as the code has it. \<open>ToURLValues\<close> holds, under the wire name of a field, one
  parameter if the field is a non-empty string, a non-zero integer or float, a boolean
  pointer that is not \<^verbatim>\<open>nil\<close>, or aircraft data that is not \<^verbatim>\<open>nil\<close> and has no NaN
  and no infinity among its weights; it holds nothing under any other key. The parameter
  is the string itself, the decimal digits of the integer, \<^verbatim>\<open>strconv.FormatFloat\<close> of the
  float, \<open>1\<close> or \<open>0\<close> for the boolean, the JSON text for the aircraft data. A departure
  hour of zero is left out.
\<close>

theorem ToURLValues_parameters:
  "map_of (ToURLValues L fpr) k =
     (case map_of (form_fields fpr) k of
        None \<Rightarrow> None
      | Some f \<Rightarrow> map_option (\<lambda>x. [x]) (code_param L f))
   \<and> distinct (map fst (ToURLValues L fpr))
   \<and> code_param L f =
       (case f of
          FAircraftData (Some ad) \<Rightarrow>
            if list_ex float64_is_nan_or_inf [OEW ad, MZFW ad, MTOW ad, MLW ad, MaxFuel ad]
            then None else spec_param L f
        | _ \<Rightarrow> spec_param L f)
   \<and> (DepartureHour fpr = 0 \<longrightarrow> map_of (ToURLValues L fpr) ''deph'' = None)
   \<and> (DepartureHour fpr \<noteq> 0 \<longrightarrow>
        map_of (ToURLValues L fpr) ''deph'' = Some [Itoa (DepartureHour fpr)])"
proof -
  have deph: "map_of (form_fields fpr) ''deph'' = Some (FInt (DepartureHour fpr))"
    by (simp add: form_fields_def)
  show ?thesis
    using code_param_spec_param [of L f]
    by (simp add: ToURLValues_lookup distinct_ToURLValues deph)
qed

theorem ToURLValues_parameters_witness:
  "map_of (ToURLValues stdlib0 (NewFlightPlanRequest ''KJFK'' ''KLAX'' ''B738'')) ''deph'' = None
   \<and> map_of (ToURLValues stdlib0 (NewFlightPlanRequest ''KJFK'' ''KLAX'' ''B738'')) ''orig'' = Some [''KJFK'']
   \<and> map_of (ToURLValues stdlib0
        ((NewFlightPlanRequest ''KJFK'' ''KLAX'' ''B738'')\<lparr>DepartureHour := 14, NavLog := Some False\<rparr>))
        ''deph'' = Some [''14'']
   \<and> map_of (ToURLValues stdlib0
        ((NewFlightPlanRequest ''KJFK'' ''KLAX'' ''B738'')\<lparr>DepartureHour := 14, NavLog := Some False\<rparr>))
        ''navlog'' = Some [''0'']"
proof -
  let ?r = "NewFlightPlanRequest ''KJFK'' ''KLAX'' ''B738''"
  let ?r' = "?r\<lparr>DepartureHour := 14, NavLog := Some False\<rparr>"
  have lookup: "map_of (ToURLValues stdlib0 r) k =
     (case map_of (form_fields r) k of
        None \<Rightarrow> None
      | Some f \<Rightarrow> map_option (\<lambda>x. [x]) (code_param stdlib0 f))" for r k
    using ToURLValues_parameters [of stdlib0 r k] by (rule conjunct1)
  have "DepartureHour ?r = 0"
    by (simp add: NewFlightPlanRequest_def)
  then have a: "map_of (ToURLValues stdlib0 ?r) ''deph'' = None"
    using ToURLValues_parameters [of stdlib0 ?r] by blast
  have b: "map_of (ToURLValues stdlib0 ?r) ''orig'' = Some [''KJFK'']"
    by (simp add: lookup form_fields_def NewFlightPlanRequest_def)
  have "DepartureHour ?r' \<noteq> 0"
    by (simp add: NewFlightPlanRequest_def)
  then have "map_of (ToURLValues stdlib0 ?r') ''deph'' = Some [Itoa (DepartureHour ?r')]"
    using ToURLValues_parameters [of stdlib0 ?r'] by blast
  then have c: "map_of (ToURLValues stdlib0 ?r') ''deph'' = Some [''14'']"
    by (simp add: NewFlightPlanRequest_def Itoa_def natDigits.simps digitChar_eval)
  have d: "map_of (ToURLValues stdlib0 ?r') ''navlog'' = Some [''0'']"
    by (simp add: lookup form_fields_def NewFlightPlanRequest_def)
  from a b c d show ?thesis by simp
qed

text \<open>
  C1, as the claim states it, fails: aircraft data that is not \<^verbatim>\<open>nil\<close> gives no
  parameter when a weight is a NaN, because \<^verbatim>\<open>json.Marshal\<close> fails, \<open>String\<close> drops the
  error and returns the empty string, and \<open>addString\<close> skips an empty string.
\<close>

theorem ToURLValues_acdata_counterexample:
  "AircraftData request_NaN \<noteq> None
   \<and> map_of (ToURLValues stdlib0 request_NaN) ''acdata'' = None
   \<and> spec_param stdlib0 (FAircraftData (AircraftData request_NaN)) = Some []"
proof -
  have "AircraftData_String stdlib0 (Some (AircraftData_OEW float64_NaN)) = []"
    by (simp add: AircraftData_String_empty_iff AircraftData_OEW_def NaN_eval)
  then show ?thesis
    by (simp add: ToURLValues_lookup form_fields_def request_NaN_def NewFlightPlanRequest_def)
qed

section \<open>The API key\<close>

lemma keys_Add: "fst ` set (Add key val v) = insert key (fst ` set v)"
  by (force simp: Add_def)

lemma map_of_Add_fresh:
  assumes "key \<notin> fst ` set v"
  shows "map_of (Add key val v) key = Some [val]"
proof -
  from assms have "map_of v key = None"
    by (simp add: map_of_eq_None_iff)
  then show ?thesis
    by (simp add: Add_fresh [OF assms] map_add_def)
qed

lemma keys_cond_Add: "fst ` set (if b then Add k x v else v) \<subseteq> insert k (fst ` set v)"
  by (simp add: keys_Add subset_insertI)

lemma keys_ToURLValues: "fst ` set (ToURLValues L fpr) \<subseteq> fst ` set (form_fields fpr)"
  using fst_param_entries [of L "form_fields fpr"] by (simp add: ToURLValues_params)

lemma api_key_not_wire_name: "''api_key'' \<notin> fst ` set (form_fields fpr)"
  by (simp add: form_fields_def)

lemma api_key_not_ToURLValues: "''api_key'' \<notin> fst ` set (ToURLValues L fpr)"
  using keys_ToURLValues [of L fpr] api_key_not_wire_name [of fpr] by blast

lemma keys_ToQueryParams_values:
  "fst ` set (ToQueryParams_values fr) \<subseteq> {''userid'', ''username'', ''static_id'', ''json''}"
proof -
  define v1 where "v1 = (if UserID fr \<noteq> [] then Add ''userid'' (UserID fr) [] else [])"
  define v2 where "v2 = (if Username fr \<noteq> [] then Add ''username'' (Username fr) v1 else v1)"
  define v3 where
    "v3 = (if FetchStaticID fr \<noteq> [] then Add ''static_id'' (FetchStaticID fr) v2 else v2)"
  define v4 where "v4 = (if JSON fr then Add ''json'' ''1'' v3 else v3)"
  have "fst ` set v1 \<subseteq> {''userid''}"
    unfolding v1_def using keys_cond_Add [of "UserID fr \<noteq> []" "''userid''" "UserID fr" "[]"]
    by simp
  then have "fst ` set v2 \<subseteq> {''userid'', ''username''}"
    unfolding v2_def
    using keys_cond_Add [of "Username fr \<noteq> []" "''username''" "Username fr" v1] by blast
  then have "fst ` set v3 \<subseteq> {''userid'', ''username'', ''static_id''}"
    unfolding v3_def
    using keys_cond_Add [of "FetchStaticID fr \<noteq> []" "''static_id''" "FetchStaticID fr" v2]
    by blast
  then have "fst ` set v4 \<subseteq> {''userid'', ''username'', ''static_id'', ''json''}"
    unfolding v4_def using keys_cond_Add [of "JSON fr" "''json''" "''1''" v3] by blast
  moreover have "ToQueryParams_values fr = v4"
    by (simp add: ToQueryParams_values_def Let_def v1_def v2_def v3_def v4_def)
  ultimately show ?thesis by simp
qed

subsection \<open>The parameter names of an encoded query\<close>

lemma Split_from_no_sep:
  "sep \<notin> set x \<Longrightarrow> Split_from sep cur (x @ rest) = Split_from sep (cur @ x) rest"
  by (induction x arbitrary: cur) auto

lemma Split_from_last: "sep \<notin> set x \<Longrightarrow> Split_from sep cur x = [cur @ x]"
  using Split_from_no_sep [of sep x cur "[]"] by simp

lemma Split_from_Join:
  "xs \<noteq> [] \<Longrightarrow> \<forall>x\<in>set xs. sep \<notin> set x \<Longrightarrow>
   Split_from sep cur (Join xs [sep]) = (cur @ hd xs) # tl xs"
proof (induction xs "[sep]" arbitrary: cur rule: Join.induct)
  case 1
  then show ?case by simp
next
  case (2 x)
  then show ?case by (simp add: Split_from_last)
next
  case (3 x y ys)
  have "Split_from sep cur (x @ sep # Join (y # ys) [sep]) =
        Split_from sep (cur @ x) (sep # Join (y # ys) [sep])"
    using 3(3) Split_from_no_sep [of sep x cur] by simp
  also have "\<dots> = (cur @ x) # Split_from sep [] (Join (y # ys) [sep])"
    by simp
  also have "\<dots> = (cur @ x) # y # ys"
    using 3 by simp
  finally show ?case by simp
qed

lemma Split_Join:
  "xs \<noteq> [] \<Longrightarrow> \<forall>x\<in>set xs. sep \<notin> set x \<Longrightarrow> Split (Join xs [sep]) sep = xs"
  using Split_from_Join [of xs sep "[]"] by (simp add: Split_def)

lemma Join_not_Nil: "xs \<noteq> [] \<Longrightarrow> hd xs \<noteq> [] \<Longrightarrow> Join xs sep \<noteq> []"
  by (cases xs; cases "tl xs") auto

lemma upperhex_in: "upperhex n \<in> set ''0123456789ABCDEF''"
  unfolding upperhex_def by (rule nth_mem) simp

lemma not_unreserved: "\<not> isUnreserved (CHR ''&'')" "\<not> isUnreserved (CHR ''='')"
  by (simp_all add: isUnreserved_def)

lemma upperhex_chars: "upperhex n \<noteq> CHR ''&'' \<and> upperhex n \<noteq> CHR ''=''"
  using upperhex_in [of n] by auto

lemma escapeByte_chars:
  assumes "x \<in> set (escapeByte c)"
  shows "x \<noteq> CHR ''&'' \<and> x \<noteq> CHR ''=''"
proof (cases "isUnreserved c")
  case True
  with assms have "x = c" by (simp add: escapeByte_def)
  with True show ?thesis using not_unreserved by auto
next
  case False
  show ?thesis
  proof (cases "c = CHR '' ''")
    case True
    with False assms show ?thesis by (simp add: escapeByte_def)
  next
    case space: False
    with False assms have "x = CHR ''%'' \<or> x = upperhex (of_char c div 16) \<or>
        x = upperhex (of_char c mod 16)"
      by (simp add: escapeByte_def)
    then show ?thesis
      using upperhex_chars by auto
  qed
qed

lemma QueryEscape_chars:
  "x \<in> set (QueryEscape s) \<Longrightarrow> x \<noteq> CHR ''&'' \<and> x \<noteq> CHR ''=''"
  using escapeByte_chars by (auto simp: QueryEscape_def)


lemma takeWhile_key:
  "CHR ''='' \<notin> set a \<Longrightarrow> takeWhile (\<lambda>c. c \<noteq> CHR ''='') (a @ ''='' @ b) = a"
  by (induction a) auto

lemma Encode_components: "Encode v = Join (query_components v) ''&''"
  by (simp add: Encode_def query_components_def)

lemma component_shape:
  "p \<in> set (query_components v) \<Longrightarrow>
   \<exists>k vs x. (k, vs) \<in> set v \<and> x \<in> set vs \<and> p = QueryEscape k @ ''='' @ QueryEscape x"
  by (auto simp: query_components_def)

lemma component_key:
  assumes "p \<in> set (query_components v)"
  shows "CHR ''&'' \<notin> set p \<and> p \<noteq> [] \<and>
    (\<exists>k vs. (k, vs) \<in> set v \<and> vs \<noteq> [] \<and> takeWhile (\<lambda>c. c \<noteq> CHR ''='') p = QueryEscape k)"
proof -
  from component_shape [OF assms] obtain k vs x where
    kv: "(k, vs) \<in> set v" and x: "x \<in> set vs" and p: "p = QueryEscape k @ ''='' @ QueryEscape x"
    by blast
  have "CHR ''='' \<notin> set (QueryEscape k)"
    using QueryEscape_chars by blast
  then have "takeWhile (\<lambda>c. c \<noteq> CHR ''='') p = QueryEscape k"
    unfolding p by (rule takeWhile_key)
  moreover have "CHR ''&'' \<notin> set p"
    using QueryEscape_chars [of "CHR ''&''"] by (auto simp: p)
  moreover have "vs \<noteq> []" using x by auto
  ultimately show ?thesis using kv p by auto
qed

lemma key_component:
  assumes "(k, vs) \<in> set v" and "vs \<noteq> []"
  shows "\<exists>p\<in>set (query_components v). takeWhile (\<lambda>c. c \<noteq> CHR ''='') p = QueryEscape k"
proof -
  obtain x where x: "x \<in> set vs" using assms(2) by (cases vs) auto
  let ?p = "QueryEscape k @ ''='' @ QueryEscape x"
  have "?p \<in> set (query_components v)"
    using assms(1) x by (force simp: query_components_def)
  moreover have "CHR ''='' \<notin> set (QueryEscape k)"
    using QueryEscape_chars by blast
  then have "takeWhile (\<lambda>c. c \<noteq> CHR ''='') ?p = QueryEscape k"
    by (rule takeWhile_key)
  ultimately show ?thesis by blast
qed

lemma query_keys_Encode:
  "set (query_keys (Encode v)) = QueryEscape ` {k. \<exists>vs. (k, vs) \<in> set v \<and> vs \<noteq> []}"
proof (cases "query_components v = []")
  case True
  have "\<not> (\<exists>k vs. (k, vs) \<in> set v \<and> vs \<noteq> [])"
    using key_component [of _ _ v] True by fastforce
  with True show ?thesis
    by (auto simp: Encode_components query_keys_def)
next
  case False
  let ?cs = "query_components v"
  have "hd ?cs \<in> set ?cs" using False by simp
  then have "hd ?cs \<noteq> []" using component_key by blast
  then have ne: "Encode v \<noteq> []"
    using False Join_not_Nil by (simp add: Encode_components)
  have "\<forall>p\<in>set ?cs. CHR ''&'' \<notin> set p"
    using component_key by blast
  then have "Split (Encode v) (CHR ''&'') = ?cs"
    using False Split_Join [of ?cs "CHR ''&''"] by (simp add: Encode_components)
  with ne have "set (query_keys (Encode v)) = takeWhile (\<lambda>c. c \<noteq> CHR ''='') ` set ?cs"
    by (simp add: query_keys_def)
  also have "\<dots> = QueryEscape ` {k. \<exists>vs. (k, vs) \<in> set v \<and> vs \<noteq> []}"
  proof (intro set_eqI iffI)
    fix y assume "y \<in> takeWhile (\<lambda>c. c \<noteq> CHR ''='') ` set ?cs"
    then obtain p where "p \<in> set ?cs" "y = takeWhile (\<lambda>c. c \<noteq> CHR ''='') p" by blast
    then show "y \<in> QueryEscape ` {k. \<exists>vs. (k, vs) \<in> set v \<and> vs \<noteq> []}"
      using component_key [of p v] by auto
  next
    fix y assume "y \<in> QueryEscape ` {k. \<exists>vs. (k, vs) \<in> set v \<and> vs \<noteq> []}"
    then obtain k vs where "(k, vs) \<in> set v" "vs \<noteq> []" "y = QueryEscape k" by blast
    then show "y \<in> takeWhile (\<lambda>c. c \<noteq> CHR ''='') ` set ?cs"
      using key_component [of k vs v] by force
  qed
  finally show ?thesis .
qed

lemma QueryEscape_wire_names: "k \<in> fst ` set (form_fields fpr) \<Longrightarrow> QueryEscape k = k"
  by (auto simp: form_fields_def QueryEscape_def escapeByte_def isUnreserved_def)

lemma QueryEscape_api_key: "QueryEscape ''api_key'' = ''api_key''"
  by (simp add: QueryEscape_def escapeByte_def isUnreserved_def)

lemma ToURLValues_entries: "(k, vs) \<in> set (ToURLValues L fpr) \<Longrightarrow> vs \<noteq> [] \<and> k \<in> fst ` set (form_fields fpr)"
proof -
  assume a: "(k, vs) \<in> set (ToURLValues L fpr)"
  then have "k \<in> fst ` set (form_fields fpr)"
    using keys_ToURLValues [of L fpr] by force
  moreover from a obtain kf where "param_entry L kf = Some (k, vs)"
    by (auto simp: ToURLValues_params List.map_filter_def)
  then have "vs \<noteq> []"
    by (auto simp: param_entry_def)
  ultimately show ?thesis by simp
qed

lemma generation_query_keys:
  "(''api_key'' \<in> set (query_keys (Encode (GenerateFlightPlanURL_values L c req)))) = (APIKey c \<noteq> [])"
proof -
  let ?V = "GenerateFlightPlanURL_values L c req"
  have wire: "QueryEscape k \<noteq> ''api_key''" if "(k, vs) \<in> set (ToURLValues L req)" for k vs
  proof -
    from ToURLValues_entries [OF that] have k: "k \<in> fst ` set (form_fields req)"
      by simp
    then have "QueryEscape k = k"
      by (rule QueryEscape_wire_names)
    moreover from k have "k \<noteq> ''api_key''"
      using api_key_not_wire_name [of req] by blast
    ultimately show ?thesis by simp
  qed
  show ?thesis
  proof (cases "APIKey c = []")
    case True
    then have V: "?V = ToURLValues L req"
      by (simp add: GenerateFlightPlanURL_values_def)
    have "''api_key'' \<notin> set (query_keys (Encode ?V))"
    proof
      assume "''api_key'' \<in> set (query_keys (Encode ?V))"
      then obtain k vs where "(k, vs) \<in> set ?V" and "QueryEscape k = ''api_key''"
        unfolding query_keys_Encode by auto
      then show False
        using wire [of k vs] V by simp
    qed
    with True show ?thesis by simp
  next
    case False
    then have "?V = ToURLValues L req @ [(''api_key'', [APIKey c])]"
      using api_key_not_ToURLValues [of L req]
      by (simp add: GenerateFlightPlanURL_values_def Add_fresh)
    then have "(''api_key'', [APIKey c]) \<in> set ?V" by simp
    then have "QueryEscape ''api_key'' \<in> set (query_keys (Encode ?V))"
      unfolding query_keys_Encode by blast
    with False show ?thesis
      by (simp add: QueryEscape_api_key)
  qed
qed

lemma QueryEscape_fetch_names:
  "k \<in> {''userid'', ''username'', ''static_id'', ''json''} \<Longrightarrow> QueryEscape k = k"
  by (auto simp: QueryEscape_def escapeByte_def isUnreserved_def)

lemma fetch_query_keys:
  "''api_key'' \<notin> set (query_keys (drop 1 (ToQueryParams fr)))"
proof -
  have enc: "''api_key'' \<notin> set (query_keys (Encode (ToQueryParams_values fr)))"
  proof
    assume "''api_key'' \<in> set (query_keys (Encode (ToQueryParams_values fr)))"
    then obtain k vs where kv: "(k, vs) \<in> set (ToQueryParams_values fr)"
      and e: "QueryEscape k = ''api_key''"
      unfolding query_keys_Encode by auto
    from kv have "k \<in> {''userid'', ''username'', ''static_id'', ''json''}"
      using keys_ToQueryParams_values [of fr] by force
    then show False
      using e QueryEscape_fetch_names [of k] by auto
  qed
  show ?thesis
  proof (cases "ToQueryParams_values fr = []")
    case True
    then show ?thesis by (simp add: ToQueryParams_def query_keys_def)
  next
    case False
    then show ?thesis using enc by (simp add: ToQueryParams_def)
  qed
qed

text \<open>
  C8. The query that \<open>GenerateFlightPlanURL\<close> appends to the generation endpoint has a
  parameter named \<open>api_key\<close> exactly when the key of the client is not empty: the values
  it encodes hold the key \<open>api_key\<close> exactly then, with the key of the client as the one
  value. The query that \<open>ToQueryParams\<close> builds for the fetch endpoint never has a
  parameter named \<open>api_key\<close>, and the fetch URL does not depend on the key of the client.
\<close>

theorem api_key_only_on_generation:
  "GenerateFlightPlanURL L c req =
     BaseURL c @ ''/system/dispatch.php?'' @ Encode (GenerateFlightPlanURL_values L c req)
   \<and> (''api_key'' \<in> set (query_keys (Encode (GenerateFlightPlanURL_values L c req)))) =
       (APIKey c \<noteq> [])
   \<and> (''api_key'' \<in> fst ` set (GenerateFlightPlanURL_values L c req)) = (APIKey c \<noteq> [])
   \<and> (APIKey c \<noteq> [] \<longrightarrow>
        map_of (GenerateFlightPlanURL_values L c req) ''api_key'' = Some [APIKey c])
   \<and> ''api_key'' \<notin> fst ` set (ToQueryParams_values fr)
   \<and> ''api_key'' \<notin> set (query_keys (drop 1 (ToQueryParams fr)))
   \<and> fetchFlightPlan_fullURL (c\<lparr>APIKey := key\<rparr>) fr = fetchFlightPlan_fullURL c fr"
proof -
  have a: "(''api_key'' \<in> fst ` set (GenerateFlightPlanURL_values L c req)) = (APIKey c \<noteq> [])"
    using api_key_not_ToURLValues [of L req]
    by (simp add: GenerateFlightPlanURL_values_def Let_def keys_Add)
  have b: "APIKey c \<noteq> [] \<longrightarrow>
        map_of (GenerateFlightPlanURL_values L c req) ''api_key'' = Some [APIKey c]"
    using api_key_not_ToURLValues [of L req]
    by (simp add: GenerateFlightPlanURL_values_def Let_def map_of_Add_fresh)
  have c: "''api_key'' \<notin> fst ` set (ToQueryParams_values fr)"
    using keys_ToQueryParams_values [of fr] by auto
  show ?thesis
    using a b c generation_query_keys [of L c req] fetch_query_keys [of fr]
    by (simp add: GenerateFlightPlanURL_def endpointGenerate_def fetchFlightPlan_fullURL_def)
qed

theorem api_key_only_on_generation_witness:
  "map_of (GenerateFlightPlanURL_values stdlib0 (NewClient ''secret'')
      (NewFlightPlanRequest ''KJFK'' ''KLAX'' ''B738'')) ''api_key'' = Some [''secret'']
   \<and> GenerateFlightPlanURL stdlib0 (NewClient ''secret'') (NewFlightPlanRequest ''KJFK'' ''KLAX'' ''B738'') =
      ''https://www.simbrief.com/system/dispatch.php?api_key=secret&dest=KLAX&orig=KJFK&type=B738''
   \<and> GenerateFlightPlanURL stdlib0 (NewClient []) (NewFlightPlanRequest ''KJFK'' ''KLAX'' ''B738'') =
      ''https://www.simbrief.com/system/dispatch.php?dest=KLAX&orig=KJFK&type=B738''
   \<and> fetchFlightPlan_fullURL (NewClient ''secret'')
        \<lparr>UserID = ''12345'', Username = [], FetchStaticID = [], JSON = True\<rparr> =
      ''https://www.simbrief.com/api/xml.fetcher.php?json=1&userid=12345''"
proof -
  have "APIKey (NewClient ''secret'') \<noteq> []"
    by (simp add: NewClient_def)
  then have "map_of (GenerateFlightPlanURL_values stdlib0 (NewClient ''secret'')
      (NewFlightPlanRequest ''KJFK'' ''KLAX'' ''B738'')) ''api_key'' = Some [APIKey (NewClient ''secret'')]"
    using api_key_only_on_generation [of stdlib0 "NewClient ''secret''"] by blast
  then have a: "map_of (GenerateFlightPlanURL_values stdlib0 (NewClient ''secret'')
      (NewFlightPlanRequest ''KJFK'' ''KLAX'' ''B738'')) ''api_key'' = Some [''secret'']"
    by (simp add: NewClient_def)
  have b: "GenerateFlightPlanURL stdlib0 (NewClient ''secret'') (NewFlightPlanRequest ''KJFK'' ''KLAX'' ''B738'') =
      ''https://www.simbrief.com/system/dispatch.php?api_key=secret&dest=KLAX&orig=KJFK&type=B738''"
    by code_simp
  have c: "GenerateFlightPlanURL stdlib0 (NewClient []) (NewFlightPlanRequest ''KJFK'' ''KLAX'' ''B738'') =
      ''https://www.simbrief.com/system/dispatch.php?dest=KLAX&orig=KJFK&type=B738''"
    by code_simp
  have d: "fetchFlightPlan_fullURL (NewClient ''secret'')
        \<lparr>UserID = ''12345'', Username = [], FetchStaticID = [], JSON = True\<rparr> =
      ''https://www.simbrief.com/api/xml.fetcher.php?json=1&userid=12345''"
    by code_simp
  from a b c d show ?thesis by simp
qed

section \<open>The static ID\<close>

lemma toValidUTF8_ValidString: "ValidString s \<Longrightarrow> toValidUTF8 s = s"
proof (induction s rule: ValidString.induct)
  case 1
  then show ?case by simp
next
  case (2 b bs)
  let ?n = "validRuneLen (b # bs)"
  from "2.prems" have n: "?n \<noteq> 0" and rest: "ValidString (drop ?n (b # bs))"
    by (auto simp del: validRuneLen.simps split: if_splits)
  from "2.IH" n rest have "toValidUTF8 (drop ?n (b # bs)) = drop ?n (b # bs)"
    by blast
  with n have "toValidUTF8 (b # bs) = take ?n (b # bs) @ drop ?n (b # bs)"
    by (simp del: validRuneLen.simps)
  then show ?case
    by (simp only: append_take_drop_id)
qed

lemma UnmarshalJSON_table:
  "UnmarshalJSON s data =
     (case data of
        Malformed \<Rightarrow> Inl ErrStaticID
      | Wellformed (JString str) \<Rightarrow> Inr (s\<lparr>Value := str\<rparr>)
      | Wellformed JNull \<Rightarrow> Inr (s\<lparr>Value := []\<rparr>)
      | Wellformed (JObject kvs) \<Rightarrow>
          if numbers_fit (JObject kvs) then Inr (s\<lparr>Value := []\<rparr>) else Inl ErrStaticID
      | Wellformed (JBool b) \<Rightarrow> Inl ErrStaticID
      | Wellformed (JNumber m e) \<Rightarrow> Inl ErrStaticID
      | Wellformed (JArray xs) \<Rightarrow> Inl ErrStaticID)"
  by (auto simp: UnmarshalJSON_def split: raw_json.splits json.splits)

text \<open>
  C2, as the code has it. Decoding tries the bytes as a string first, then as an
  object, which gives the empty string, and fails only when both attempts fail.
  Encoding gives the empty object for the empty string and the string literal otherwise.
  Encoding a string that is valid UTF-8 and decoding the bytes gives the string back.
\<close>

theorem static_id_round_trip_valid:
  "(ValidString v \<longrightarrow> static_id_round_trip v = Inr \<lparr>Value = v\<rparr>)
   \<and> MarshalJSON \<lparr>Value = []\<rparr> = Inr (Wellformed (JObject []))
   \<and> (v \<noteq> [] \<longrightarrow> MarshalJSON \<lparr>Value = v\<rparr> = Inr (Wellformed (JString (toValidUTF8 v))))
   \<and> (json_Unmarshal_string data [] = Inr str \<longrightarrow> UnmarshalJSON s data = Inr (s\<lparr>Value := str\<rparr>))
   \<and> ((\<exists>err. json_Unmarshal_string data [] = Inl err) \<and> json_Unmarshal_map data = None \<longrightarrow>
        UnmarshalJSON s data = Inr (s\<lparr>Value := []\<rparr>))
   \<and> (\<exists>err. UnmarshalJSON s data = Inl err) =
       ((\<exists>err. json_Unmarshal_string data [] = Inl err) \<and> (\<exists>err. json_Unmarshal_map data = Some err))"
proof -
  have rt: "static_id_round_trip v = Inr \<lparr>Value = v\<rparr>" if "ValidString v"
    using that toValidUTF8_ValidString [OF that]
    by (simp add: static_id_round_trip_def MarshalJSON_def json_Marshal_string_def
        UnmarshalJSON_def)
  have dec: "(\<exists>err. UnmarshalJSON s data = Inl err) =
       ((\<exists>err. json_Unmarshal_string data [] = Inl err) \<and> (\<exists>err. json_Unmarshal_map data = Some err))"
    by (auto simp: UnmarshalJSON_def split: sum.splits option.splits)
  show ?thesis
    using rt dec
    by (auto simp: MarshalJSON_def json_Marshal_string_def UnmarshalJSON_def
        split: sum.splits option.splits)
qed

theorem static_id_round_trip_valid_witness:
  "static_id_round_trip ''ABC_12345'' = Inr \<lparr>Value = ''ABC_12345''\<rparr>
   \<and> static_id_round_trip [] = Inr \<lparr>Value = []\<rparr>
   \<and> MarshalJSON \<lparr>Value = ''ABC_12345''\<rparr> = Inr (Wellformed (JString ''ABC_12345''))
   \<and> UnmarshalJSON \<lparr>Value = ''old''\<rparr> (Wellformed (JObject [])) = Inr \<lparr>Value = []\<rparr>"
proof -
  have v: "ValidString ''ABC_12345''"
    by (simp add: byte_def)
  have e: "ValidString []"
    by simp
  have t: "toValidUTF8 ''ABC_12345'' = ''ABC_12345''"
    by (simp add: byte_def)
  have "static_id_round_trip ''ABC_12345'' = Inr \<lparr>Value = ''ABC_12345''\<rparr>"
    using v static_id_round_trip_valid [of "''ABC_12345''"] by blast
  moreover have "static_id_round_trip [] = Inr \<lparr>Value = []\<rparr>"
    using e static_id_round_trip_valid [of "[]"] by blast
  moreover have "MarshalJSON \<lparr>Value = ''ABC_12345''\<rparr> = Inr (Wellformed (JString ''ABC_12345''))"
    using t static_id_round_trip_valid [of "''ABC_12345''"] by simp
  moreover have "UnmarshalJSON \<lparr>Value = ''old''\<rparr> (Wellformed (JObject [])) = Inr \<lparr>Value = []\<rparr>"
    using static_id_round_trip_valid [of _ "Wellformed (JObject [])" _ "\<lparr>Value = ''old''\<rparr>"]
    by simp
  ultimately show ?thesis by blast
qed

text \<open>
  C2, as the claim states it, fails for a string that is not valid UTF-8: the byte
  \<open>0xFF\<close> comes back as the three bytes of the replacement character.
\<close>

theorem static_id_round_trip_counterexample:
  "static_id_round_trip [CHR 0xFF] = Inr \<lparr>Value = [CHR 0xEF, CHR 0xBF, CHR 0xBD]\<rparr>
   \<and> [CHR 0xFF] \<noteq> [CHR 0xEF, CHR 0xBF, CHR 0xBD]"
  by (simp add: static_id_round_trip_def MarshalJSON_def json_Marshal_string_def
      UnmarshalJSON_def byte_def replacement_def)

text \<open>
  C9, as the code has it. Decoding gives the string for a JSON string; it gives the
  empty string for \<^verbatim>\<open>null\<close> and for an object, with keys or without, all of whose
  numbers fit a \<^verbatim>\<open>float64\<close>; it fails for every other input: a boolean, a number, an
  array, an object with a number that does not fit, and bytes that are not JSON.
\<close>

theorem UnmarshalJSON_accepts:
  "UnmarshalJSON s data =
     (case data of
        Malformed \<Rightarrow> Inl ErrStaticID
      | Wellformed (JString str) \<Rightarrow> Inr (s\<lparr>Value := str\<rparr>)
      | Wellformed JNull \<Rightarrow> Inr (s\<lparr>Value := []\<rparr>)
      | Wellformed (JObject kvs) \<Rightarrow>
          if numbers_fit (JObject kvs) then Inr (s\<lparr>Value := []\<rparr>) else Inl ErrStaticID
      | Wellformed (JBool b) \<Rightarrow> Inl ErrStaticID
      | Wellformed (JNumber m e) \<Rightarrow> Inl ErrStaticID
      | Wellformed (JArray xs) \<Rightarrow> Inl ErrStaticID)
   \<and> UnmarshalJSON s (Wellformed (JObject [(''a'', JNumber 1 0)])) = Inr (s\<lparr>Value := []\<rparr>)
   \<and> UnmarshalJSON s (Wellformed (JObject [(''a'', JNumber 1 400)])) = Inl ErrStaticID"
  using UnmarshalJSON_table [of s data]
  by (simp add: UnmarshalJSON_def overflows_float64_def)

theorem UnmarshalJSON_accepts_witness:
  "UnmarshalJSON \<lparr>Value = ''old''\<rparr> (Wellformed (JObject [(''a'', JNumber 1 0)])) = Inr \<lparr>Value = []\<rparr>
   \<and> UnmarshalJSON \<lparr>Value = ''old''\<rparr> (Wellformed (JString ''ABC_12345'')) = Inr \<lparr>Value = ''ABC_12345''\<rparr>
   \<and> UnmarshalJSON \<lparr>Value = ''old''\<rparr> (Wellformed (JArray [])) = Inl ErrStaticID"
  using UnmarshalJSON_accepts [of "\<lparr>Value = ''old''\<rparr>" "Wellformed (JString ''ABC_12345'')"]
    UnmarshalJSON_accepts [of "\<lparr>Value = ''old''\<rparr>" "Wellformed (JArray [])"]
  by simp

text \<open>
  C9, as the claim states it, fails: \<^verbatim>\<open>null\<close> is neither a JSON string nor a JSON
  object, and decoding it succeeds.
\<close>

theorem UnmarshalJSON_null_counterexample:
  "UnmarshalJSON \<lparr>Value = ''old''\<rparr> (Wellformed JNull) = Inr \<lparr>Value = []\<rparr>"
  by (simp add: UnmarshalJSON_def)

end
